theory Spec2Isabelle
  imports Main "HOL-Library.Word"
begin

unbundle bit_operations_syntax

section \<open>The gamecard interface of nxdumptool (source/core/gamecard.c)\<close>

text \<open>
  A shallow embedding of the gamecard core: the global variables of the C file are the
  fields of one state record, every function takes the state and returns the new one,
  and the services the file calls (the FS device operator, the storage transport, the
  key store, AES, SHA-256, the allocator) are the fields of an environment record.
  Unsigned C integers are machine words, so every sum and difference wraps as in C.
\<close>

type_synonym u8 = "8 word"
type_synonym u32 = "32 word"
type_synonym u64 = "64 word"
type_synonym bytes = "u8 list"

subsection \<open>Enumerations\<close>

datatype GameCardStatus =
    GameCardStatus_NotInserted
  | GameCardStatus_NoGameCardPatchEnabled
  | GameCardStatus_LotusAsicFirmwareUpdateRequired
  | GameCardStatus_InsertedAndInfoNotLoaded
  | GameCardStatus_InsertedAndInfoLoaded

datatype GameCardStorageArea =
    GameCardStorageArea_None
  | GameCardStorageArea_Normal
  | GameCardStorageArea_Secure

datatype GameCardHashFileSystemPartitionType =
    GameCardHashFileSystemPartitionType_Root
  | GameCardHashFileSystemPartitionType_Update
  | GameCardHashFileSystemPartitionType_Logo
  | GameCardHashFileSystemPartitionType_Normal
  | GameCardHashFileSystemPartitionType_Secure
  | GameCardHashFileSystemPartitionType_Boot

subsection \<open>Constants of gamecard.c\<close>

definition GAMECARD_READ_BUFFER_SIZE :: u64 where
  "GAMECARD_READ_BUFFER_SIZE = 0x800000"

definition GAMECARD_UNUSED_AREA_BLOCK_SIZE :: u64 where
  "GAMECARD_UNUSED_AREA_BLOCK_SIZE = 0x24"

text \<open>
  Modelled from the spec: \<open>GAMECARD_PAGE_SIZE\<close> is declared in gamecard.h, which is not
  among the sources; the spec calls it the fixed-size alignment unit of all physical
  offsets and lengths. It is the 512-byte sector of the card. It is a constant here, not
  a parameter, because the chunked reader below only advances when the page divides the
  8 MiB read buffer.
\<close>

definition GAMECARD_PAGE_SIZE :: u64 where
  "GAMECARD_PAGE_SIZE = 0x200"

definition GAMECARD_UNUSED_AREA_SIZE :: "u64 \<Rightarrow> u64" where
  "GAMECARD_UNUSED_AREA_SIZE x = (x div GAMECARD_PAGE_SIZE) * GAMECARD_UNUSED_AREA_BLOCK_SIZE"

text \<open>The \<open>GameCardCapacity\<close> enumeration: \<open>BIT_LONG(30)\<close> to \<open>BIT_LONG(35)\<close>.\<close>

definition GameCardCapacity_1GiB :: u64 where "GameCardCapacity_1GiB = 2 ^ 30"
definition GameCardCapacity_2GiB :: u64 where "GameCardCapacity_2GiB = 2 ^ 31"
definition GameCardCapacity_4GiB :: u64 where "GameCardCapacity_4GiB = 2 ^ 32"
definition GameCardCapacity_8GiB :: u64 where "GameCardCapacity_8GiB = 2 ^ 33"
definition GameCardCapacity_16GiB :: u64 where "GameCardCapacity_16GiB = 2 ^ 34"
definition GameCardCapacity_32GiB :: u64 where "GameCardCapacity_32GiB = 2 ^ 35"

text \<open>\<open>g_gameCardHfsPartitionNames\<close>, the table of the six partition names.\<close>

fun g_gameCardHfsPartitionNames :: "GameCardHashFileSystemPartitionType \<Rightarrow> string" where
  "g_gameCardHfsPartitionNames GameCardHashFileSystemPartitionType_Root = ''root''"
| "g_gameCardHfsPartitionNames GameCardHashFileSystemPartitionType_Update = ''update''"
| "g_gameCardHfsPartitionNames GameCardHashFileSystemPartitionType_Logo = ''logo''"
| "g_gameCardHfsPartitionNames GameCardHashFileSystemPartitionType_Normal = ''normal''"
| "g_gameCardHfsPartitionNames GameCardHashFileSystemPartitionType_Secure = ''secure''"
| "g_gameCardHfsPartitionNames GameCardHashFileSystemPartitionType_Boot = ''boot''"

subsection \<open>Declarations of the headers that are not among the sources\<close>

text \<open>
  The values below come from gamecard.h, hfs.h and libnx. The model takes them as
  parameters: the magic words, the sizes of the binary records, the six
  \<open>GameCardRomSize\<close> codes, the numeric value of each status (the code compares
  statuses with \<open><\<close>), the \<open>GAMECARD_PAGE_OFFSET\<close> macro and the key and digest
  sizes of libnx.
\<close>

record gamecard_h =
  GAMECARD_HEAD_MAGIC :: u32
  HFS0_MAGIC :: u32
  GAMECARD_CERTIFICATE_OFFSET :: u64
  sizeof_FsGameCardCertificate :: u64
  sizeof_GameCardHeader :: u64
  sizeof_HashFileSystemHeader :: u64
  sizeof_HashFileSystemEntry :: u64
  GameCardRomSize_1GiB :: u8
  GameCardRomSize_2GiB :: u8
  GameCardRomSize_4GiB :: u8
  GameCardRomSize_8GiB :: u8
  GameCardRomSize_16GiB :: u8
  GameCardRomSize_32GiB :: u8
  GameCardStatus_value :: "GameCardStatus \<Rightarrow> nat"
  GAMECARD_PAGE_OFFSET :: "u32 \<Rightarrow> u64"
  AES_128_KEY_SIZE :: nat
  SHA256_HASH_SIZE :: nat

text \<open>The fields of the binary records that gamecard.c reads.\<close>

record GameCardHeader =
  magic :: u32
  rom_size :: u8
  package_id :: bytes
  valid_data_end_address :: u32
  card_info_iv :: bytes
  partition_fs_header_address :: u64
  partition_fs_header_size :: u64
  partition_fs_header_hash :: bytes
  initial_data_hash :: bytes
  card_info :: bytes

record GameCardInfo =
  fw_version :: u64

record HashFileSystemHeader =
  hfs_magic :: u32
  entry_count :: u32
  name_table_size :: u32

record HashFileSystemEntry =
  entry_offset :: u64
  entry_size :: u64
  name_offset :: u32
  hash_target_size :: u32
  hash_target_offset :: u64
  entry_hash :: bytes

record HashFileSystemContext =
  ctx_name :: string
  ctx_type :: GameCardHashFileSystemPartitionType
  ctx_offset :: u64
  ctx_size :: u64
  ctx_header_size :: u64
  ctx_header :: bytes

text \<open>\<open>memset(&g_gameCardHeader, 0, ...)\<close> and \<open>memset(&g_gameCardInfoArea, 0, ...)\<close>.\<close>

definition zero_GameCardHeader :: GameCardHeader where
  "zero_GameCardHeader = \<lparr>magic = 0, rom_size = 0, package_id = replicate 8 0,
     valid_data_end_address = 0, card_info_iv = replicate 16 0,
     partition_fs_header_address = 0, partition_fs_header_size = 0,
     partition_fs_header_hash = replicate 32 0, initial_data_hash = replicate 32 0,
     card_info = []\<rparr>"

definition zero_GameCardInfo :: GameCardInfo where
  "zero_GameCardInfo = \<lparr>fw_version = 0\<rparr>"

subsection \<open>The calls that leave the file, and the environment that answers them\<close>

text \<open>
  Every call to a service is recorded in the trace of the state, newest first. An
  answer of the environment may depend on the whole history. The card is read-only:
  the bytes of an area are a fixed function of the position, and only whether a
  transfer succeeds depends on the history.
\<close>

datatype ReadTarget = To_out | To_g_gameCardReadBuf | To_g_gameCardHeader

datatype event =
    Ev_svcSleepThread u64
  | Ev_fsDeviceOperatorGetGameCardHandle
  | Ev_fsOpenGameCardStorage u32
  | Ev_svcCloseHandle u32
  | Ev_fsStorageClose
  | Ev_fsStorageRead ReadTarget u64 u64
  | Ev_fsStorageGetSize
  | Ev_alloc

record gc_env =
  fsDeviceOperatorGetGameCardHandle :: "event list \<Rightarrow> u32 option"
  fsOpenGameCardStorage :: "event list \<Rightarrow> u32 \<Rightarrow> bool"
  fsStorageRead :: "event list \<Rightarrow> GameCardStorageArea \<Rightarrow> u64 \<Rightarrow> u64 \<Rightarrow> bool"
  storage_data :: "GameCardStorageArea \<Rightarrow> nat \<Rightarrow> u8"
  fsStorageGetSize :: "event list \<Rightarrow> GameCardStorageArea \<Rightarrow> u64 option"
  keysGetGameCardInfoKey :: "bytes option"
  aes128CbcDecrypt :: "bytes \<Rightarrow> bytes \<Rightarrow> bytes \<Rightarrow> bytes"
  sha256CalculateHash :: "bytes \<Rightarrow> bytes"
  utilsGetCustomFirmwareType_is_SXOS :: bool
  alloc :: "event list \<Rightarrow> bool"
  decode_GameCardHeader :: "bytes \<Rightarrow> GameCardHeader"
  decode_GameCardInfo :: "bytes \<Rightarrow> GameCardInfo"
  decode_HashFileSystemHeader :: "bytes \<Rightarrow> HashFileSystemHeader"
  hfsGetEntryCount :: "bytes \<Rightarrow> u32"
  hfsGetEntryByIndex :: "bytes \<Rightarrow> u32 \<Rightarrow> HashFileSystemEntry"
  hfsGetNameTable_at :: "bytes \<Rightarrow> u32 \<Rightarrow> string"

subsection \<open>The global variables\<close>

record gc_state =
  g_gameCardInterfaceInit :: bool
  g_lafwVersion :: u64
  g_gameCardStatus :: GameCardStatus
  g_gameCardHandle :: u32
  g_gameCardStorage_active :: bool
  g_gameCardCurrentStorageArea :: GameCardStorageArea
  g_gameCardHeader :: GameCardHeader
  g_gameCardInfoArea :: GameCardInfo
  g_gameCardNormalAreaSize :: u64
  g_gameCardSecureAreaSize :: u64
  g_gameCardTotalSize :: u64
  g_gameCardCapacity :: u64
  g_gameCardHfsCount :: u32
  g_gameCardHfsCtx :: "HashFileSystemContext option list option"
  trace :: "event list"

definition log_event :: "event \<Rightarrow> gc_state \<Rightarrow> gc_state" where
  "log_event e s = s\<lparr>trace := e # trace s\<rparr>"

subsection \<open>The public getters\<close>

text \<open>
  An output pointer is \<open>None\<close> when it is NULL and \<open>Some v\<close> when it points to an
  object holding \<open>v\<close>; a getter returns its flag and what the pointer holds afterwards.
\<close>

definition gamecardGetHeader ::
  "gc_state \<Rightarrow> GameCardHeader option \<Rightarrow> bool \<times> GameCardHeader option" where
  "gamecardGetHeader s out =
     (let ret = (g_gameCardInterfaceInit s
                 \<and> g_gameCardStatus s = GameCardStatus_InsertedAndInfoLoaded \<and> out \<noteq> None)
      in if ret then (ret, Some (g_gameCardHeader s)) else (ret, out))"

definition gamecardGetTotalSize :: "gc_state \<Rightarrow> u64 option \<Rightarrow> bool \<times> u64 option" where
  "gamecardGetTotalSize s out =
     (let ret = (g_gameCardInterfaceInit s
                 \<and> g_gameCardStatus s = GameCardStatus_InsertedAndInfoLoaded \<and> out \<noteq> None)
      in if ret then (ret, Some (g_gameCardTotalSize s)) else (ret, out))"

definition gamecardGetTrimmedSize ::
  "gamecard_h \<Rightarrow> gc_state \<Rightarrow> u64 option \<Rightarrow> bool \<times> u64 option" where
  "gamecardGetTrimmedSize h s out =
     (let ret = (g_gameCardInterfaceInit s
                 \<and> g_gameCardStatus s = GameCardStatus_InsertedAndInfoLoaded \<and> out \<noteq> None)
      in if ret
         then (ret, Some (sizeof_GameCardHeader h
                 + GAMECARD_PAGE_OFFSET h (valid_data_end_address (g_gameCardHeader s))))
         else (ret, out))"

definition gamecardGetRomCapacity :: "gc_state \<Rightarrow> u64 option \<Rightarrow> bool \<times> u64 option" where
  "gamecardGetRomCapacity s out =
     (let ret = (g_gameCardInterfaceInit s
                 \<and> g_gameCardStatus s = GameCardStatus_InsertedAndInfoLoaded \<and> out \<noteq> None)
      in if ret then (ret, Some (g_gameCardCapacity s)) else (ret, out))"

subsection \<open>Capacity of a ROM size code\<close>

text \<open>The \<open>switch\<close> of the source; \<open>0\<close> is the failure value that \<open>gamecardLoadInfo\<close> tests.\<close>

definition gamecardGetCapacityFromRomSizeValue :: "gamecard_h \<Rightarrow> u8 \<Rightarrow> u64" where
  "gamecardGetCapacityFromRomSizeValue h rom_size_value =
     (if rom_size_value = GameCardRomSize_1GiB h then GameCardCapacity_1GiB
      else if rom_size_value = GameCardRomSize_2GiB h then GameCardCapacity_2GiB
      else if rom_size_value = GameCardRomSize_4GiB h then GameCardCapacity_4GiB
      else if rom_size_value = GameCardRomSize_8GiB h then GameCardCapacity_8GiB
      else if rom_size_value = GameCardRomSize_16GiB h then GameCardCapacity_16GiB
      else if rom_size_value = GameCardRomSize_32GiB h then GameCardCapacity_32GiB
      else 0)"

subsection \<open>Alignment\<close>

text \<open>
  Modelled from the spec: the macros \<open>ALIGN_DOWN\<close>, \<open>ALIGN_UP\<close> and \<open>IS_ALIGNED\<close>
  of nxdt_utils.h are not among the sources; the spec has them round a range down and up
  to page boundaries. The sum inside \<open>ALIGN_UP\<close> wraps as every 64-bit sum does.
\<close>

definition ALIGN_DOWN :: "u64 \<Rightarrow> u64 \<Rightarrow> u64" where
  "ALIGN_DOWN x y = x - x mod y"

definition ALIGN_UP :: "u64 \<Rightarrow> u64 \<Rightarrow> u64" where
  "ALIGN_UP x y = ALIGN_DOWN (x + (y - 1)) y"

definition IS_ALIGNED :: "u64 \<Rightarrow> u64 \<Rightarrow> bool" where
  "IS_ALIGNED x y = (x mod y = 0)"

text \<open>\<open>__builtin_bswap32\<close>: the four bytes of a 32-bit value in the opposite order.\<close>

definition bswap32 :: "u32 \<Rightarrow> u32" where
  "bswap32 w = push_bit 24 w OR push_bit 8 (w AND 0xFF00)
                 OR (drop_bit 8 w AND 0xFF00) OR drop_bit 24 w"

subsection \<open>Handles and storage areas\<close>

text \<open>
  \<open>g_gameCardStorage_active\<close> is \<open>serviceIsActive(&g_gameCardStorage.s)\<close>. A handle is
  its \<open>value\<close>; zero is no handle.
\<close>

definition gamecardCloseHandle :: "gc_state \<Rightarrow> gc_state" where
  "gamecardCloseHandle s =
     (if g_gameCardHandle s = 0 then s
      else (log_event (Ev_svcCloseHandle (g_gameCardHandle s)) s)\<lparr>g_gameCardHandle := 0\<rparr>)"

definition gamecardCloseStorageArea :: "gc_state \<Rightarrow> gc_state" where
  "gamecardCloseStorageArea s =
     (let s1 = (if g_gameCardStorage_active s
                then (log_event Ev_fsStorageClose s)\<lparr>g_gameCardStorage_active := False\<rparr>
                else s);
          s2 = gamecardCloseHandle s1
      in s2\<lparr>g_gameCardCurrentStorageArea := GameCardStorageArea_None\<rparr>)"

text \<open>
  The \<open>for\<close> loop of \<open>gamecardGetHandleAndStorage\<close>: the third argument is the number of
  tries that are left, the fourth is \<open>R_FAILED(rc)\<close> at the head of the loop body, and the
  flag returned is \<open>R_FAILED(rc)\<close> when the loop is left.
\<close>

fun gamecardGetHandleAndStorage_tries ::
  "gc_env \<Rightarrow> u32 \<Rightarrow> nat \<Rightarrow> bool \<Rightarrow> gc_state \<Rightarrow> bool \<times> gc_state" where
  "gamecardGetHandleAndStorage_tries env partition_n 0 rc_failed s = (rc_failed, s)"
| "gamecardGetHandleAndStorage_tries env partition_n (Suc n) rc_failed s =
     (let s1 = (if rc_failed then log_event (Ev_svcSleepThread 100000000) s else s);
          got = fsDeviceOperatorGetGameCardHandle env (trace s1);
          s2 = log_event Ev_fsDeviceOperatorGetGameCardHandle s1
      in case got of
           None \<Rightarrow> gamecardGetHandleAndStorage_tries env partition_n n True s2
         | Some v \<Rightarrow>
             (let s3 = s2\<lparr>g_gameCardHandle := v\<rparr>;
                  opened = fsOpenGameCardStorage env (trace s3) partition_n;
                  s4 = log_event (Ev_fsOpenGameCardStorage partition_n) s3
              in if \<not> opened
                 then gamecardGetHandleAndStorage_tries env partition_n n True (gamecardCloseHandle s4)
                 else (False, s4\<lparr>g_gameCardStorage_active := True\<rparr>)))"

definition gamecardGetHandleAndStorage ::
  "gamecard_h \<Rightarrow> gc_env \<Rightarrow> gc_state \<Rightarrow> u32 \<Rightarrow> bool \<times> gc_state" where
  "gamecardGetHandleAndStorage h env s partition_n =
     (if GameCardStatus_value h (g_gameCardStatus s)
           < GameCardStatus_value h GameCardStatus_InsertedAndInfoNotLoaded \<or> partition_n > 1
      then (False, s)
      else
        (let (rc_failed, s1) = gamecardGetHandleAndStorage_tries env partition_n 10 False s
         in if rc_failed
            then (False,
                  if g_gameCardStatus s1 = GameCardStatus_InsertedAndInfoNotLoaded \<and> partition_n = 0
                  then s1\<lparr>g_gameCardStatus := GameCardStatus_NoGameCardPatchEnabled\<rparr>
                  else s1)
            else (True, s1)))"

fun GameCardStorageArea_value :: "GameCardStorageArea \<Rightarrow> u8" where
  "GameCardStorageArea_value GameCardStorageArea_None = 0"
| "GameCardStorageArea_value GameCardStorageArea_Normal = 1"
| "GameCardStorageArea_value GameCardStorageArea_Secure = 2"

definition gamecardOpenStorageArea ::
  "gamecard_h \<Rightarrow> gc_env \<Rightarrow> gc_state \<Rightarrow> GameCardStorageArea \<Rightarrow> bool \<times> gc_state" where
  "gamecardOpenStorageArea h env s area =
     (if GameCardStatus_value h (g_gameCardStatus s)
           < GameCardStatus_value h GameCardStatus_InsertedAndInfoNotLoaded
         \<or> (area \<noteq> GameCardStorageArea_Normal \<and> area \<noteq> GameCardStorageArea_Secure)
      then (False, s)
      else if g_gameCardHandle s \<noteq> 0 \<and> g_gameCardStorage_active s
              \<and> g_gameCardCurrentStorageArea s = area
      then (True, s)
      else
        (let s1 = gamecardCloseStorageArea s;
             (ok, s2) = gamecardGetHandleAndStorage h env s1
                          (ucast (GameCardStorageArea_value area - 1))
         in if \<not> ok then (False, s2)
            else (True, s2\<lparr>g_gameCardCurrentStorageArea := area\<rparr>)))"

subsection \<open>Reading the storage areas\<close>

text \<open>The bytes a successful \<open>fsStorageRead\<close> of \<open>n\<close> bytes at \<open>off\<close> delivers.\<close>

definition storage_bytes :: "gc_env \<Rightarrow> GameCardStorageArea \<Rightarrow> u64 \<Rightarrow> u64 \<Rightarrow> bytes" where
  "storage_bytes env area off n = map (storage_data env area) [unat off ..< unat off + unat n]"

text \<open>Arithmetic of page rounding, needed for the termination of the reader.\<close>

lemma dvd_gap: fixes a c :: nat
  assumes "512 dvd a" "512 dvd c" "c < a" shows "c + 512 \<le> a"
proof -
  from assms obtain k m where a: "a = 512 * k" and c: "c = 512 * m" by (auto simp: dvd_def)
  from assms(3) have "m < k" unfolding a c by simp
  then have "Suc m \<le> k" by simp
  then have "512 * Suc m \<le> 512 * k" by (rule mult_le_mono2)
  then show ?thesis unfolding a c by simp
qed

lemma unat_rounddown: "unat ((x::64 word) - x mod 512) = unat x - unat x mod 512"
  by (simp add: unat_sub unat_mod word_le_nat_alt)

lemma rounddown_dvd: "512 dvd unat ((x::64 word) - x mod 512)"
  unfolding unat_rounddown by (rule dvd_minus_mod)

lemma dvd_word_diff:
  fixes a b :: "64 word"
  assumes "512 dvd unat a" "512 dvd unat b"
  shows "512 dvd unat (a - b)"
proof -
  have M: "(512::nat) dvd 2 ^ 64" by (rule dvd_trans[of _ "2^9"]) (simp_all add: le_imp_power_dvd)
  show ?thesis
  proof (cases "unat b \<le> unat a")
    case True
    then show ?thesis using assms by (simp add: unat_sub_if')
  next
    case False
    have "512 dvd unat a + 2 ^ 64 - unat b"
      by (rule dvd_diff_nat) (use assms M in \<open>auto intro: dvd_add\<close>)
    with False show ?thesis by (simp add: unat_sub_if')
  qed
qed

lemma block_size_ring:
  fixes base rs :: "64 word"
  shows "((base + rs + 511) - (base + rs + 511) mod 512) - (base - base mod 512)
         = rs + (511 + base mod 512 - (base + rs + 511) mod 512)"
  by (simp add: algebra_simps)

lemma unat_slack:
  fixes d t :: "64 word"
  assumes "d = x mod 512" "t = y mod 512"
  shows "unat (511 + d - t) = 511 + unat d - unat t" "unat d < 512" "unat t < 512"
proof -
  show d: "unat d < 512" using assms(1) by (simp add: unat_mod)
  show t: "unat t < 512" using assms(2) by (simp add: unat_mod)
  have "unat (511 + d) = 511 + unat d" using d by (simp add: unat_plus_if')
  moreover have "t \<le> 511 + d" using d t \<open>unat (511 + d) = 511 + unat d\<close> by (simp add: word_le_nat_alt)
  ultimately show "unat (511 + d - t) = 511 + unat d - unat t" by (simp add: unat_sub)
qed

lemma chunk_progress_nat:
  fixes base rs :: "64 word"
  assumes big: "((base + rs + 511) - (base + rs + 511) mod 512) - (base - base mod 512) > 0x800000"
  shows "0x800000 < unat rs + unat (base mod 512)"
proof -
  let ?bsz = "((base + rs + 511) - (base + rs + 511) mod 512) - (base - base mod 512)"
  let ?c = "511 + base mod 512 - (base + rs + 511) mod 512"
  have c: "unat ?c = 511 + unat (base mod 512) - unat ((base + rs + 511) mod 512)"
    and d: "unat (base mod 512) < 512" and t: "unat ((base + rs + 511) mod 512) < 512"
    using unat_slack[where x=base and y="base + rs + 511", OF refl refl] by auto
  have eq: "?bsz = rs + ?c" by (rule block_size_ring)
  have dv: "512 dvd unat ?bsz" by (intro dvd_word_diff rounddown_dvd)
  have B: "(512::nat) dvd 0x800000" by simp
  from big have "0x800000 < unat ?bsz" by (simp add: word_less_nat_alt)
  with dv B have ge: "0x800000 + 512 \<le> unat ?bsz" by (intro dvd_gap) auto
  have "unat (rs + ?c) \<le> unat rs + unat ?c" by (simp add: unat_plus_if')
  with ge eq have "0x800000 + 512 \<le> unat rs + unat ?c" by simp
  with c d t show ?thesis by linarith
qed


lemma span_diff_less:
  fixes offs rs n :: u64
  assumes "offs < n" "offs + rs > n"
  shows "unat (n - offs) < unat rs" "n - offs \<le> rs"
  using assms by unat_arith+

lemma data_start_offset_eq:
  "base - ALIGN_DOWN base GAMECARD_PAGE_SIZE = base mod 512"
  by (simp add: ALIGN_DOWN_def GAMECARD_PAGE_SIZE_def)

lemma unat_out_chunk_size:
  "unat (GAMECARD_READ_BUFFER_SIZE - (base - ALIGN_DOWN base GAMECARD_PAGE_SIZE))
     = 0x800000 - unat base mod 512"
proof -
  have "unat (base mod 512) < 512" by (simp add: unat_mod)
  then have "base mod 512 \<le> 0x800000" by (simp add: word_le_nat_alt)
  then show ?thesis
    by (simp add: data_start_offset_eq GAMECARD_READ_BUFFER_SIZE_def unat_sub unat_mod)
qed

lemma chunk_progress:
  fixes base rs :: u64
  assumes "ALIGN_UP (base + rs) GAMECARD_PAGE_SIZE - ALIGN_DOWN base GAMECARD_PAGE_SIZE
             > GAMECARD_READ_BUFFER_SIZE"
  shows "unat (rs - (GAMECARD_READ_BUFFER_SIZE - (base - ALIGN_DOWN base GAMECARD_PAGE_SIZE)))
           = unat rs - (0x800000 - unat base mod 512)"
    and "0x800000 - unat base mod 512 < unat rs"
proof -
  from assms have "0x800000 < unat rs + unat (base mod 512)"
    unfolding ALIGN_UP_def ALIGN_DOWN_def GAMECARD_PAGE_SIZE_def GAMECARD_READ_BUFFER_SIZE_def
    by (intro chunk_progress_nat) simp
  then show lt: "0x800000 - unat base mod 512 < unat rs" by (simp add: unat_mod)
  then have "GAMECARD_READ_BUFFER_SIZE - (base - ALIGN_DOWN base GAMECARD_PAGE_SIZE) \<le> rs"
    by (simp add: word_le_nat_alt unat_out_chunk_size)
  then show "unat (rs - (GAMECARD_READ_BUFFER_SIZE - (base - ALIGN_DOWN base GAMECARD_PAGE_SIZE)))
           = unat rs - (0x800000 - unat base mod 512)"
    by (simp add: unat_sub unat_out_chunk_size)
qed

lemma chunk_less:
  fixes base rs :: u64
  assumes "ALIGN_UP (base + rs) GAMECARD_PAGE_SIZE - ALIGN_DOWN base GAMECARD_PAGE_SIZE
             > GAMECARD_READ_BUFFER_SIZE"
    and "unat rs \<le> n"
  shows "unat (rs - (GAMECARD_READ_BUFFER_SIZE - (base - ALIGN_DOWN base GAMECARD_PAGE_SIZE))) < n"
  using chunk_progress[OF assms(1)] assms(2) by linarith

text \<open>
  \<open>gamecardReadStorageArea\<close>. The flag \<open>out\<close> says that the output pointer is not NULL.
  The result is the success flag, the bytes written to the output buffer so far (all of
  them on success) and the new state. The \<open>memcpy\<close> out of the read buffer copies
  \<open>out_chunk_size\<close> bytes from position \<open>data_start_offset\<close> of the chunk just read.
  This describes the code when those bytes lie inside the chunk, which is so for every
  range inside the card of less than \<open>2^63\<close> bytes; beyond that the code can copy bytes
  that the call has not read, about which the model says nothing.
\<close>

function gamecardReadStorageArea ::
  "gamecard_h \<Rightarrow> gc_env \<Rightarrow> gc_state \<Rightarrow> bool \<Rightarrow> u64 \<Rightarrow> u64 \<Rightarrow> bool \<times> bytes \<times> gc_state" where
  "gamecardReadStorageArea h env s out read_size offset =
     (if GameCardStatus_value h (g_gameCardStatus s)
           < GameCardStatus_value h GameCardStatus_InsertedAndInfoNotLoaded
         \<or> g_gameCardNormalAreaSize s = 0 \<or> g_gameCardSecureAreaSize s = 0
         \<or> \<not> out \<or> read_size = 0 \<or> offset + read_size > g_gameCardTotalSize s
      then (False, [], s)
      else
        (let spans = (offset < g_gameCardNormalAreaSize s
                      \<and> offset + read_size > g_gameCardNormalAreaSize s);
             diff_size = g_gameCardNormalAreaSize s - offset;
             (ok1, data1, s1) =
               (if spans then gamecardReadStorageArea h env s out diff_size offset
                else (True, [], s))
         in if \<not> ok1 then (False, data1, s1)
            else
              (let read_size2 = (if spans then read_size - diff_size else read_size);
                   offset2 = (if spans then g_gameCardNormalAreaSize s1 else offset);
                   area = (if spans then GameCardStorageArea_Secure
                           else if offset < g_gameCardNormalAreaSize s
                           then GameCardStorageArea_Normal else GameCardStorageArea_Secure);
                   (opened, s2) = gamecardOpenStorageArea h env s1 area
               in if \<not> opened then (False, data1, s2)
                  else
                    (let base_offset = (if area = GameCardStorageArea_Normal then offset2
                                        else offset2 - g_gameCardNormalAreaSize s2)
                     in if base_offset mod GAMECARD_PAGE_SIZE = 0
                           \<and> read_size2 mod GAMECARD_PAGE_SIZE = 0
                        then
                          (let rc_ok = fsStorageRead env (trace s2) area base_offset read_size2;
                               s3 = log_event (Ev_fsStorageRead To_out base_offset read_size2) s2
                           in if \<not> rc_ok then (False, data1, s3)
                              else (True, data1 @ storage_bytes env area base_offset read_size2, s3))
                        else
                          (let block_start_offset = ALIGN_DOWN base_offset GAMECARD_PAGE_SIZE;
                               block_end_offset = ALIGN_UP (base_offset + read_size2) GAMECARD_PAGE_SIZE;
                               block_size = block_end_offset - block_start_offset;
                               data_start_offset = base_offset - block_start_offset;
                               chunk_size = (if block_size > GAMECARD_READ_BUFFER_SIZE
                                             then GAMECARD_READ_BUFFER_SIZE else block_size);
                               out_chunk_size = (if block_size > GAMECARD_READ_BUFFER_SIZE
                                                 then GAMECARD_READ_BUFFER_SIZE - data_start_offset
                                                 else read_size2);
                               rc_ok = fsStorageRead env (trace s2) area block_start_offset chunk_size;
                               s3 = log_event (Ev_fsStorageRead To_g_gameCardReadBuf block_start_offset chunk_size) s2
                           in if \<not> rc_ok then (False, data1, s3)
                              else
                                (let copied = take (unat out_chunk_size)
                                                (drop (unat data_start_offset)
                                                   (storage_bytes env area block_start_offset chunk_size))
                                 in if block_size > GAMECARD_READ_BUFFER_SIZE
                                    then
                                      (let (ok4, data4, s4) =
                                             gamecardReadStorageArea h env s3 out
                                               (read_size2 - out_chunk_size) (offset2 + out_chunk_size)
                                       in (ok4, data1 @ copied @ data4, s4))
                                    else (True, data1 @ copied, s3)))))))"
  by pat_completeness auto

termination
  apply (relation "measure (\<lambda>(h, env, s, out, read_size, offset). unat read_size)")
    apply simp
   apply (simp add: span_diff_less)
  apply (clarsimp split: if_splits)
    apply (rule chunk_less, assumption, simp add: unat_sub span_diff_less)+
  done


declare gamecardReadStorageArea.simps [simp del]


subsection \<open>Sizes of the storage areas\<close>

text \<open>One round of the loop of \<open>gamecardGetStorageAreasSizes\<close>.\<close>

definition gamecardGetStorageAreasSizes_area ::
  "gamecard_h \<Rightarrow> gc_env \<Rightarrow> gc_state \<Rightarrow> GameCardStorageArea \<Rightarrow> bool \<times> gc_state" where
  "gamecardGetStorageAreasSizes_area h env s area =
     (let (opened, s1) = gamecardOpenStorageArea h env s area
      in if \<not> opened then (False, s1)
         else
           (let rc = fsStorageGetSize env (trace s1) area;
                s2 = gamecardCloseStorageArea (log_event Ev_fsStorageGetSize s1)
            in case rc of
                 None \<Rightarrow> (False, s2)
               | Some area_size \<Rightarrow>
                   if area_size = 0 then (False, s2)
                   else if area = GameCardStorageArea_Normal
                   then (True, s2\<lparr>g_gameCardNormalAreaSize := area_size\<rparr>)
                   else (True, s2\<lparr>g_gameCardSecureAreaSize := area_size\<rparr>)))"

definition gamecardGetStorageAreasSizes ::
  "gamecard_h \<Rightarrow> gc_env \<Rightarrow> gc_state \<Rightarrow> bool \<times> gc_state" where
  "gamecardGetStorageAreasSizes h env s =
     (let (ok1, s1) = gamecardGetStorageAreasSizes_area h env s GameCardStorageArea_Normal
      in if \<not> ok1 then (False, s1)
         else
           (let (ok2, s2) = gamecardGetStorageAreasSizes_area h env s1 GameCardStorageArea_Secure
            in if \<not> ok2 then (False, s2)
               else (True, s2\<lparr>g_gameCardTotalSize :=
                                 g_gameCardNormalAreaSize s2 + g_gameCardSecureAreaSize s2\<rparr>)))"

subsection \<open>Header and CardInfo area\<close>

definition gamecardReadHeader :: "gamecard_h \<Rightarrow> gc_env \<Rightarrow> gc_state \<Rightarrow> bool \<times> gc_state" where
  "gamecardReadHeader h env s =
     (let (opened, s1) = gamecardOpenStorageArea h env s GameCardStorageArea_Normal
      in if \<not> opened then (False, s1)
         else
           (let rc_ok = fsStorageRead env (trace s1) GameCardStorageArea_Normal 0
                          (sizeof_GameCardHeader h);
                s2 = log_event (Ev_fsStorageRead To_g_gameCardHeader 0 (sizeof_GameCardHeader h)) s1
            in if \<not> rc_ok then (False, s2)
               else
                 (let s3 = s2\<lparr>g_gameCardHeader :=
                              decode_GameCardHeader env
                                (storage_bytes env GameCardStorageArea_Normal 0
                                   (sizeof_GameCardHeader h))\<rparr>
                  in if bswap32 (magic (g_gameCardHeader s3)) \<noteq> GAMECARD_HEAD_MAGIC h
                     then (False, s3) else (True, s3))))"

definition gamecardGetDecryptedCardInfoArea ::
  "gamecard_h \<Rightarrow> gc_env \<Rightarrow> gc_state \<Rightarrow> bool \<times> gc_state" where
  "gamecardGetDecryptedCardInfoArea h env s =
     (case keysGetGameCardInfoKey env of
        None \<Rightarrow> (False, s)
      | Some card_info_key \<Rightarrow>
          (let card_info_iv_rev =
                 map (\<lambda>i. card_info_iv (g_gameCardHeader s) ! (AES_128_KEY_SIZE h - i - 1))
                   [0 ..< AES_128_KEY_SIZE h]
           in (True, s\<lparr>g_gameCardInfoArea :=
                         decode_GameCardInfo env
                           (aes128CbcDecrypt env card_info_key card_info_iv_rev
                              (card_info (g_gameCardHeader s)))\<rparr>)))"

subsection \<open>Releasing the gamecard info\<close>

text \<open>
  Heap blocks are not modelled: freeing the Hash FS contexts and their pointer array
  leaves the state with no reference to them.
\<close>

definition gamecardFreeInfo :: "bool \<Rightarrow> gc_state \<Rightarrow> gc_state" where
  "gamecardFreeInfo clear_status s =
     (let s1 = s\<lparr>g_gameCardHeader := zero_GameCardHeader,
                  g_gameCardInfoArea := zero_GameCardInfo,
                  g_gameCardNormalAreaSize := 0, g_gameCardSecureAreaSize := 0,
                  g_gameCardTotalSize := 0, g_gameCardCapacity := 0,
                  g_gameCardHfsCtx := None, g_gameCardHfsCount := 0\<rparr>;
          s2 = gamecardCloseStorageArea s1
      in if clear_status then s2\<lparr>g_gameCardStatus := GameCardStatus_NotInserted\<rparr> else s2)"

subsection \<open>Hash FS contexts\<close>

text \<open>\<open>memcmp(a, b, n) != 0\<close> on two buffers of at least \<open>n\<close> bytes.\<close>

definition memcmp_differs :: "bytes \<Rightarrow> bytes \<Rightarrow> nat \<Rightarrow> bool" where
  "memcmp_differs a b n = (take n a \<noteq> take n b)"

text \<open>The partition types in the order of their enumeration, as the search loop visits them.\<close>

definition GameCardHashFileSystemPartitionType_all :: "GameCardHashFileSystemPartitionType list" where
  "GameCardHashFileSystemPartitionType_all =
     [GameCardHashFileSystemPartitionType_Root, GameCardHashFileSystemPartitionType_Update,
      GameCardHashFileSystemPartitionType_Logo, GameCardHashFileSystemPartitionType_Normal,
      GameCardHashFileSystemPartitionType_Secure, GameCardHashFileSystemPartitionType_Boot]"

text \<open>
  The test on the hash target of \<open>gamecardInitializeHashFileSystemContext\<close>,
  \<open>hash_target_size && (hash_target_offset + hash_target_size) <= fs_ctx->header_size\<close>:
  the size is promoted to 64 bits and the sum is a sum of \<open>u64\<close>.
\<close>

definition hash_target_checked :: "u64 \<Rightarrow> u32 \<Rightarrow> u64 \<Rightarrow> bool" where
  "hash_target_checked hash_target_offset_arg hash_target_size_arg header_size \<longleftrightarrow>
     hash_target_size_arg \<noteq> 0
     \<and> hash_target_offset_arg + ucast hash_target_size_arg \<le> header_size"

text \<open>
  \<open>gamecardInitializeHashFileSystemContext\<close>. A name or a hash is \<open>None\<close> when the pointer
  is NULL. The result is the new context, or \<open>None\<close> for NULL. The bytes hashed are the
  \<open>hash_target_size\<close> bytes at \<open>hash_target_offset\<close> of the header that was read. This
  describes the code for a hash target that lies inside the header; when the sum of the
  test above wraps, the code hashes bytes in front of the header buffer, about which the
  model says nothing.
\<close>

definition gamecardInitializeHashFileSystemContext ::
  "gamecard_h \<Rightarrow> gc_env \<Rightarrow> gc_state \<Rightarrow> string option \<Rightarrow> u64 \<Rightarrow> u64 \<Rightarrow> bytes option \<Rightarrow> u64 \<Rightarrow> u32
     \<Rightarrow> HashFileSystemContext option \<times> gc_state" where
  "gamecardInitializeHashFileSystemContext h env s name offset size_arg hash
       hash_target_offset_arg hash_target_size_arg =
     (if name = Some []
         \<or> offset < GAMECARD_CERTIFICATE_OFFSET h + sizeof_FsGameCardCertificate h
         \<or> \<not> IS_ALIGNED offset GAMECARD_PAGE_SIZE
         \<or> (size_arg \<noteq> 0 \<and> (\<not> IS_ALIGNED size_arg GAMECARD_PAGE_SIZE
                          \<or> offset + size_arg > g_gameCardTotalSize s))
      then (None, s)
      else
        (let ctx_ok = alloc env (trace s); s1 = log_event Ev_alloc s
         in if \<not> ctx_ok then (None, s1)
            else
        (let name_ok = alloc env (trace s1); s2 = log_event Ev_alloc s1
         in if \<not> name_ok then (None, s2)
            else
        (let fs_ctx_name =
               (case name of
                  Some n \<Rightarrow> n
                | None \<Rightarrow> g_gameCardHfsPartitionNames GameCardHashFileSystemPartitionType_Root)
         in case find (\<lambda>t. g_gameCardHfsPartitionNames t = fs_ctx_name)
                   GameCardHashFileSystemPartitionType_all of
              None \<Rightarrow> (None, s2)
            | Some fs_ctx_type \<Rightarrow>
        (let (partial_ok, partial_bytes, s3) =
               gamecardReadStorageArea h env s2 True (sizeof_HashFileSystemHeader h) offset
         in if \<not> partial_ok then (None, s3)
            else
        (let fs_header = decode_HashFileSystemHeader env partial_bytes
         in if bswap32 (hfs_magic fs_header) \<noteq> HFS0_MAGIC h then (None, s3)
            else if (name = None \<and> entry_count fs_header = 0) \<or> name_table_size fs_header = 0
            then (None, s3)
            else
        (let header_size =
               ALIGN_UP (sizeof_HashFileSystemHeader h
                           + ucast (entry_count fs_header) * sizeof_HashFileSystemEntry h
                           + ucast (name_table_size fs_header)) GAMECARD_PAGE_SIZE;
             header_ok = alloc env (trace s3); s4 = log_event Ev_alloc s3
         in if \<not> header_ok then (None, s4)
            else
        (let (full_ok, header_bytes, s5) =
               gamecardReadStorageArea h env s4 True header_size offset
         in if \<not> full_ok then (None, s5)
            else if (case hash of
                       None \<Rightarrow> False
                     | Some expected \<Rightarrow>
                         hash_target_checked hash_target_offset_arg hash_target_size_arg
                           header_size
                         \<and> memcmp_differs
                             (sha256CalculateHash env
                                (take (unat hash_target_size_arg)
                                   (drop (unat hash_target_offset_arg) header_bytes)))
                             expected (SHA256_HASH_SIZE h))
            then (None, s5)
            else
              (Some \<lparr>ctx_name = fs_ctx_name, ctx_type = fs_ctx_type, ctx_offset = offset,
                      ctx_size =
                        (case name of
                           Some n \<Rightarrow> size_arg
                         | None \<Rightarrow>
                             (let fs_entry = hfsGetEntryByIndex env header_bytes
                                               (entry_count fs_header - 1)
                              in header_size + entry_offset fs_entry + entry_size fs_entry)),
                      ctx_header_size = header_size, ctx_header = header_bytes\<rparr>,
               s5)))))))))"

subsection \<open>Loading the gamecard info\<close>

text \<open>
  The loop of \<open>gamecardLoadInfo\<close> over the entries of the root partition; the list holds
  the indices that are still to be visited. A \<open>False\<close> flag is the \<open>goto end\<close>.
\<close>

fun gamecardLoadInfo_children ::
  "gamecard_h \<Rightarrow> gc_env \<Rightarrow> HashFileSystemContext \<Rightarrow> u32 \<Rightarrow> u32 list \<Rightarrow> gc_state
     \<Rightarrow> bool \<times> gc_state" where
  "gamecardLoadInfo_children h env root_fs_ctx root_fs_name_table_size [] s = (True, s)"
| "gamecardLoadInfo_children h env root_fs_ctx root_fs_name_table_size (i # rest) s =
     (let fs_entry = hfsGetEntryByIndex env (ctx_header root_fs_ctx) i;
          fs_entry_name = hfsGetNameTable_at env (ctx_header root_fs_ctx) (name_offset fs_entry);
          fs_entry_offset = ctx_offset root_fs_ctx + ctx_header_size root_fs_ctx
                              + entry_offset fs_entry
      in if name_offset fs_entry \<ge> root_fs_name_table_size \<or> fs_entry_name = []
         then (False, s)
         else
           (let (child, s1) =
                  gamecardInitializeHashFileSystemContext h env s (Some fs_entry_name)
                    fs_entry_offset (entry_size fs_entry) (Some (entry_hash fs_entry))
                    (hash_target_offset fs_entry) (hash_target_size fs_entry)
            in case child of
                 None \<Rightarrow> (False, s1)
               | Some fs_ctx \<Rightarrow>
                   gamecardLoadInfo_children h env root_fs_ctx root_fs_name_table_size rest
                     (s1\<lparr>g_gameCardHfsCtx :=
                           map_option (\<lambda>arr. arr[unat i + 1 := Some fs_ctx])
                             (g_gameCardHfsCtx s1)\<rparr>)))"

text \<open>
  The body of \<open>gamecardLoadInfo\<close> up to the label \<open>end\<close>, in three parts: the Hash FS
  partitions, the storage geometry before them, and the header, the CardInfo area and
  the firmware check before that. Each part returns the state at the label \<open>end\<close>.
\<close>

definition gamecardLoadInfo_partitions :: "gamecard_h \<Rightarrow> gc_env \<Rightarrow> gc_state \<Rightarrow> gc_state" where
  "gamecardLoadInfo_partitions h env s =
     (let (root, s1) =
            gamecardInitializeHashFileSystemContext h env s None
              (partition_fs_header_address (g_gameCardHeader s)) 0
              (Some (partition_fs_header_hash (g_gameCardHeader s))) 0
              (ucast (partition_fs_header_size (g_gameCardHeader s)))
      in case root of
           None \<Rightarrow> s1
         | Some root_fs_ctx \<Rightarrow>
             (let root_fs_entry_count = hfsGetEntryCount env (ctx_header root_fs_ctx);
                  s2 = s1\<lparr>g_gameCardHfsCount := root_fs_entry_count + 1\<rparr>;
                  array_ok = alloc env (trace s2);
                  s3 = log_event Ev_alloc s2
              in if \<not> array_ok then s3
                 else
                   (let s4 = s3\<lparr>g_gameCardHfsCtx :=
                                Some ((replicate (unat (g_gameCardHfsCount s3)) None)
                                        [0 := Some root_fs_ctx])\<rparr>;
                        root_fs_name_table_size =
                          name_table_size (decode_HashFileSystemHeader env (ctx_header root_fs_ctx));
                        (ok, s5) =
                          gamecardLoadInfo_children h env root_fs_ctx root_fs_name_table_size
                            (map of_nat [0 ..< unat root_fs_entry_count]) s4
                    in if \<not> ok then s5
                       else s5\<lparr>g_gameCardStatus := GameCardStatus_InsertedAndInfoLoaded\<rparr>)))"

definition gamecardLoadInfo_geometry :: "gamecard_h \<Rightarrow> gc_env \<Rightarrow> gc_state \<Rightarrow> gc_state" where
  "gamecardLoadInfo_geometry h env s =
     (let (sizes_ok, s1) = gamecardGetStorageAreasSizes h env s
      in if \<not> sizes_ok then s1
         else
           (let s2 = s1\<lparr>g_gameCardCapacity :=
                        gamecardGetCapacityFromRomSizeValue h (rom_size (g_gameCardHeader s1))\<rparr>
            in if g_gameCardCapacity s2 = 0 then s2
               else
                 (let s3 = (if utilsGetCustomFirmwareType_is_SXOS env
                            then s2\<lparr>g_gameCardSecureAreaSize :=
                                      g_gameCardCapacity s2
                                        - (g_gameCardNormalAreaSize s2
                                             + GAMECARD_UNUSED_AREA_SIZE (g_gameCardCapacity s2))\<rparr>
                            else s2)
                  in gamecardLoadInfo_partitions h env s3)))"

definition gamecardLoadInfo_steps :: "gamecard_h \<Rightarrow> gc_env \<Rightarrow> gc_state \<Rightarrow> gc_state" where
  "gamecardLoadInfo_steps h env s =
     (let (header_ok, s1) = gamecardReadHeader h env s
      in if \<not> header_ok then s1
         else
           (let (info_ok, s2) = gamecardGetDecryptedCardInfoArea h env s1
            in if \<not> info_ok then s2
               else if g_lafwVersion s2 \<le> fw_version (g_gameCardInfoArea s2)
               then s2\<lparr>g_gameCardStatus := GameCardStatus_LotusAsicFirmwareUpdateRequired\<rparr>
               else gamecardLoadInfo_geometry h env s2))"

definition gamecardLoadInfo :: "gamecard_h \<Rightarrow> gc_env \<Rightarrow> gc_state \<Rightarrow> gc_state" where
  "gamecardLoadInfo h env s =
     (if g_gameCardStatus s = GameCardStatus_InsertedAndInfoLoaded then s
      else
        (let s_end = gamecardLoadInfo_steps h env
                       (s\<lparr>g_gameCardStatus := GameCardStatus_InsertedAndInfoNotLoaded\<rparr>)
         in if g_gameCardStatus s_end \<noteq> GameCardStatus_InsertedAndInfoLoaded
            then gamecardFreeInfo False s_end
            else s_end))"

section \<open>Notions for the properties\<close>

text \<open>
  The part of \<open>gamecardReadStorageArea\<close> after the split of a read that spans both
  areas, as a function of its own: the area is opened and the range, which lies in that
  area, is read. \<open>data1\<close> is what the output buffer already holds.
\<close>

definition gamecardReadStorageArea_area ::
  "gamecard_h \<Rightarrow> gc_env \<Rightarrow> gc_state \<Rightarrow> bool \<Rightarrow> u64 \<Rightarrow> u64 \<Rightarrow> GameCardStorageArea \<Rightarrow> bytes
     \<Rightarrow> bool \<times> bytes \<times> gc_state" where
  "gamecardReadStorageArea_area h env s1 out read_size2 offset2 area data1 =
     (let (opened, s2) = gamecardOpenStorageArea h env s1 area
      in if \<not> opened then (False, data1, s2)
         else
           (let base_offset = (if area = GameCardStorageArea_Normal then offset2
                               else offset2 - g_gameCardNormalAreaSize s2)
            in if base_offset mod GAMECARD_PAGE_SIZE = 0
                  \<and> read_size2 mod GAMECARD_PAGE_SIZE = 0
               then
                 (let rc_ok = fsStorageRead env (trace s2) area base_offset read_size2;
                      s3 = log_event (Ev_fsStorageRead To_out base_offset read_size2) s2
                  in if \<not> rc_ok then (False, data1, s3)
                     else (True, data1 @ storage_bytes env area base_offset read_size2, s3))
               else
                 (let block_start_offset = ALIGN_DOWN base_offset GAMECARD_PAGE_SIZE;
                      block_end_offset = ALIGN_UP (base_offset + read_size2) GAMECARD_PAGE_SIZE;
                      block_size = block_end_offset - block_start_offset;
                      data_start_offset = base_offset - block_start_offset;
                      chunk_size = (if block_size > GAMECARD_READ_BUFFER_SIZE
                                    then GAMECARD_READ_BUFFER_SIZE else block_size);
                      out_chunk_size = (if block_size > GAMECARD_READ_BUFFER_SIZE
                                        then GAMECARD_READ_BUFFER_SIZE - data_start_offset
                                        else read_size2);
                      rc_ok = fsStorageRead env (trace s2) area block_start_offset chunk_size;
                      s3 = log_event (Ev_fsStorageRead To_g_gameCardReadBuf block_start_offset chunk_size) s2
                  in if \<not> rc_ok then (False, data1, s3)
                     else
                       (let copied = take (unat out_chunk_size)
                                       (drop (unat data_start_offset)
                                          (storage_bytes env area block_start_offset chunk_size))
                        in if block_size > GAMECARD_READ_BUFFER_SIZE
                           then
                             (let (ok4, data4, s4) =
                                    gamecardReadStorageArea h env s3 out
                                      (read_size2 - out_chunk_size) (offset2 + out_chunk_size)
                              in (ok4, data1 @ copied @ data4, s4))
                           else (True, data1 @ copied, s3)))))"

text \<open>The parameter check at the head of \<open>gamecardReadStorageArea\<close>.\<close>

definition gamecardReadStorageArea_invalid ::
  "gamecard_h \<Rightarrow> gc_state \<Rightarrow> bool \<Rightarrow> u64 \<Rightarrow> u64 \<Rightarrow> bool" where
  "gamecardReadStorageArea_invalid h s out read_size offset \<longleftrightarrow>
     GameCardStatus_value h (g_gameCardStatus s)
       < GameCardStatus_value h GameCardStatus_InsertedAndInfoNotLoaded
     \<or> g_gameCardNormalAreaSize s = 0 \<or> g_gameCardSecureAreaSize s = 0
     \<or> \<not> out \<or> read_size = 0 \<or> offset + read_size > g_gameCardTotalSize s"

text \<open>A trace extends another when it adds events in front of it.\<close>

definition trace_extends :: "event list \<Rightarrow> event list \<Rightarrow> bool" where
  "trace_extends t t' \<longleftrightarrow> (\<exists>evs. t' = evs @ t)"

text \<open>
  What reading and opening leave alone: everything that describes the card, and the
  status except for the step from \<open>InsertedAndInfoNotLoaded\<close> to
  \<open>NoGameCardPatchEnabled\<close>; the trace only grows.
\<close>

definition card_frame :: "gc_state \<Rightarrow> gc_state \<Rightarrow> bool" where
  "card_frame s s' \<longleftrightarrow>
     g_gameCardInterfaceInit s' = g_gameCardInterfaceInit s
     \<and> g_lafwVersion s' = g_lafwVersion s
     \<and> g_gameCardHeader s' = g_gameCardHeader s
     \<and> g_gameCardInfoArea s' = g_gameCardInfoArea s
     \<and> g_gameCardNormalAreaSize s' = g_gameCardNormalAreaSize s
     \<and> g_gameCardSecureAreaSize s' = g_gameCardSecureAreaSize s
     \<and> g_gameCardTotalSize s' = g_gameCardTotalSize s
     \<and> g_gameCardCapacity s' = g_gameCardCapacity s
     \<and> g_gameCardHfsCount s' = g_gameCardHfsCount s
     \<and> g_gameCardHfsCtx s' = g_gameCardHfsCtx s
     \<and> (g_gameCardStatus s' = g_gameCardStatus s
          \<or> (g_gameCardStatus s = GameCardStatus_InsertedAndInfoNotLoaded
              \<and> g_gameCardStatus s' = GameCardStatus_NoGameCardPatchEnabled))
     \<and> trace_extends (trace s) (trace s')"

text \<open>The events that a run added to the trace, newest first.\<close>

definition new_events :: "gc_state \<Rightarrow> gc_state \<Rightarrow> event list" where
  "new_events s s' = take (length (trace s') - length (trace s)) (trace s')"

text \<open>
  A list of events in the order they happened keeps the backoff when a 100 ms sleep
  separates any two requests for a handle, and every sleep follows a request and is
  followed at once by the next one. The flag says that a request was made since the
  last sleep.
\<close>

fun backoff_kept :: "bool \<Rightarrow> event list \<Rightarrow> bool" where
  "backoff_kept requested [] = True"
| "backoff_kept requested (Ev_svcSleepThread ns # es) =
     (requested \<and> ns = 100000000
      \<and> (case es of Ev_fsDeviceOperatorGetGameCardHandle # _ \<Rightarrow> True | _ \<Rightarrow> False)
      \<and> backoff_kept False es)"
| "backoff_kept requested (Ev_fsDeviceOperatorGetGameCardHandle # es) =
     (\<not> requested \<and> backoff_kept True es)"
| "backoff_kept requested (e # es) = backoff_kept requested es"

text \<open>The number of requests for a handle among some events.\<close>

definition handle_requests :: "event list \<Rightarrow> nat" where
  "handle_requests evs = count_list evs Ev_fsDeviceOperatorGetGameCardHandle"

text \<open>
  What a step of the load leaves alone: the installed firmware version and the
  initialization flag; the status stays or becomes \<open>NoGameCardPatchEnabled\<close> or
  \<open>InsertedAndInfoLoaded\<close>; the trace only grows.
\<close>

definition load_step :: "gc_state \<Rightarrow> gc_state \<Rightarrow> bool" where
  "load_step s s' \<longleftrightarrow>
     g_gameCardInterfaceInit s' = g_gameCardInterfaceInit s
     \<and> g_lafwVersion s' = g_lafwVersion s
     \<and> (g_gameCardStatus s' = g_gameCardStatus s
          \<or> g_gameCardStatus s' = GameCardStatus_NoGameCardPatchEnabled
          \<or> g_gameCardStatus s' = GameCardStatus_InsertedAndInfoLoaded)
     \<and> trace_extends (trace s) (trace s')"

text \<open>
  The step of \<open>gamecardLoadInfo\<close> after the firmware check asks for the sizes of the
  storage areas. Its first call to a service is \<open>fsStorageGetSize\<close>, when the normal
  area is still open, or else a request for a new handle. Neither is called on the way
  out through the label \<open>end\<close>, so one of them among the events added to a state
  tells that the load went past the firmware check.
\<close>

definition past_firmware_check :: "gc_state \<Rightarrow> gc_state \<Rightarrow> bool" where
  "past_firmware_check s s' \<longleftrightarrow>
     list_ex (\<lambda>e. e = Ev_fsStorageGetSize \<or> e = Ev_fsDeviceOperatorGetGameCardHandle)
       (new_events s s')"

text \<open>
  A Hash FS context is verified against a hash and a target window when the window is
  empty or does not lie in the header, or the SHA-256 of the window of the header
  agrees with the hash.
\<close>

definition node_verified ::
  "gamecard_h \<Rightarrow> gc_env \<Rightarrow> bytes \<Rightarrow> u64 \<Rightarrow> u32 \<Rightarrow> HashFileSystemContext \<Rightarrow> bool" where
  "node_verified h env expected hto hts ctx \<longleftrightarrow>
     (hts \<noteq> 0 \<and> unat hto + unat hts \<le> unat (ctx_header_size ctx)
      \<longrightarrow> \<not> memcmp_differs
            (sha256CalculateHash env (take (unat hts) (drop (unat hto) (ctx_header ctx))))
            expected (SHA256_HASH_SIZE h))"

text \<open>The root is verified against the hash and the header size that the gamecard header gives.\<close>

definition root_verified :: "gamecard_h \<Rightarrow> gc_env \<Rightarrow> GameCardHeader \<Rightarrow> HashFileSystemContext \<Rightarrow> bool" where
  "root_verified h env hdr ctx \<longleftrightarrow>
     node_verified h env (partition_fs_header_hash hdr) 0 (ucast (partition_fs_header_size hdr)) ctx"

text \<open>The child at index \<open>i\<close> is verified against entry \<open>i\<close> of the root partition.\<close>

definition child_verified ::
  "gamecard_h \<Rightarrow> gc_env \<Rightarrow> HashFileSystemContext \<Rightarrow> u32 \<Rightarrow> HashFileSystemContext \<Rightarrow> bool" where
  "child_verified h env root i ctx \<longleftrightarrow>
     (let fs_entry = hfsGetEntryByIndex env (ctx_header root) i
      in node_verified h env (entry_hash fs_entry) (hash_target_offset fs_entry)
           (hash_target_size fs_entry) ctx)"

text \<open>
  Slot \<open>j\<close> of the pointer array holds a verified context: slot 0 the root, slot
  \<open>j > 0\<close> the child of entry \<open>j - 1\<close> of the root.
\<close>

definition slot_verified ::
  "gamecard_h \<Rightarrow> gc_env \<Rightarrow> GameCardHeader \<Rightarrow> HashFileSystemContext option list \<Rightarrow> nat \<Rightarrow> bool" where
  "slot_verified h env hdr arr j \<longleftrightarrow>
     (case arr ! j of
        None \<Rightarrow> False
      | Some ctx \<Rightarrow>
          if j = 0 then root_verified h env hdr ctx
          else (case arr ! 0 of
                  None \<Rightarrow> False
                | Some root \<Rightarrow> child_verified h env root (of_nat (j - 1)) ctx))"

definition all_nodes_verified ::
  "gamecard_h \<Rightarrow> gc_env \<Rightarrow> GameCardHeader \<Rightarrow> HashFileSystemContext option list \<Rightarrow> bool" where
  "all_nodes_verified h env hdr arr \<longleftrightarrow>
     list_all (slot_verified h env hdr arr) [0 ..< length arr]"

text \<open>Steps that change the status at most to \<open>NoGameCardPatchEnabled\<close>.\<close>

definition status_step :: "gc_state \<Rightarrow> gc_state \<Rightarrow> bool" where
  "status_step s s' \<longleftrightarrow>
     g_gameCardStatus s' = g_gameCardStatus s
     \<or> g_gameCardStatus s' = GameCardStatus_NoGameCardPatchEnabled"

text \<open>Slot \<open>j > 0\<close> of an array holds a child that is verified against entry \<open>j - 1\<close>.\<close>

definition child_slot_verified ::
  "gamecard_h \<Rightarrow> gc_env \<Rightarrow> HashFileSystemContext \<Rightarrow> HashFileSystemContext option list \<Rightarrow> nat \<Rightarrow> bool" where
  "child_slot_verified h env root arr j \<longleftrightarrow>
     (\<exists>c. arr ! j = Some c \<and> child_verified h env root (of_nat (j - 1)) c)"

subsection \<open>Reads of the storage areas\<close>

text \<open>
  The area in which \<open>gamecardReadStorageArea\<close> looks for an offset, and the offset relative
  to that area (\<open>area\<close> and \<open>base_offset\<close> in the source).
\<close>

definition storage_area_of :: "gc_state \<Rightarrow> u64 \<Rightarrow> GameCardStorageArea" where
  "storage_area_of s offset =
     (if offset < g_gameCardNormalAreaSize s then GameCardStorageArea_Normal
      else GameCardStorageArea_Secure)"

definition base_offset_of :: "gc_state \<Rightarrow> u64 \<Rightarrow> u64" where
  "base_offset_of s offset =
     (if offset < g_gameCardNormalAreaSize s then offset else offset - g_gameCardNormalAreaSize s)"

text \<open>
  A logical range lies in one area when it ends inside the normal area, or starts in the
  secure area and ends inside the card.
\<close>

definition in_one_area :: "gc_state \<Rightarrow> u64 \<Rightarrow> u64 \<Rightarrow> bool" where
  "in_one_area s offset read_size \<longleftrightarrow>
     unat offset + unat read_size \<le> unat (g_gameCardNormalAreaSize s)
     \<or> (g_gameCardNormalAreaSize s \<le> offset
         \<and> unat offset + unat read_size \<le> unat (g_gameCardTotalSize s))"

text \<open>The calls to \<open>fsStorageRead\<close> among some events.\<close>

fun is_transport_read :: "event \<Rightarrow> bool" where
  "is_transport_read (Ev_fsStorageRead target off n) = True"
| "is_transport_read e = False"

definition transport_reads :: "event list \<Rightarrow> event list" where
  "transport_reads evs = filter is_transport_read evs"

text \<open>A step that adds events to the trace, none of them a call to \<open>fsStorageRead\<close>.\<close>

definition no_reads :: "gc_state \<Rightarrow> gc_state \<Rightarrow> bool" where
  "no_reads s s' \<longleftrightarrow> (\<exists>evs. trace s' = evs @ trace s \<and> transport_reads evs = [])"

text \<open>
  The test of \<open>gamecardReadStorageArea\<close> for a read that needs no buffer, and the block
  that it reads otherwise (\<open>block_start_offset\<close>, \<open>block_size\<close> in the source).
\<close>

definition page_aligned :: "u64 \<Rightarrow> u64 \<Rightarrow> bool" where
  "page_aligned base_offset read_size \<longleftrightarrow>
     base_offset mod GAMECARD_PAGE_SIZE = 0 \<and> read_size mod GAMECARD_PAGE_SIZE = 0"

definition block_start_offset :: "u64 \<Rightarrow> u64" where
  "block_start_offset base_offset = ALIGN_DOWN base_offset GAMECARD_PAGE_SIZE"

definition block_size :: "u64 \<Rightarrow> u64 \<Rightarrow> u64" where
  "block_size base_offset read_size =
     ALIGN_UP (base_offset + read_size) GAMECARD_PAGE_SIZE
       - ALIGN_DOWN base_offset GAMECARD_PAGE_SIZE"

text \<open>
  When the block is larger than the read buffer, the first chunk fills the buffer. The
  state in which the rest is read, and the number of bytes of the first chunk that go to
  the output (\<open>out_chunk_size\<close> in the source).
\<close>

definition after_first_chunk :: "gamecard_h \<Rightarrow> gc_env \<Rightarrow> gc_state \<Rightarrow> u64 \<Rightarrow> gc_state" where
  "after_first_chunk h env s offset =
     log_event (Ev_fsStorageRead To_g_gameCardReadBuf
                  (block_start_offset (base_offset_of s offset)) GAMECARD_READ_BUFFER_SIZE)
       (snd (gamecardOpenStorageArea h env s (storage_area_of s offset)))"

definition first_chunk_size :: "u64 \<Rightarrow> u64" where
  "first_chunk_size base_offset =
     GAMECARD_READ_BUFFER_SIZE - (base_offset - block_start_offset base_offset)"

text \<open>The condition that the public getters test on the state.\<close>

definition info_loaded :: "gc_state \<Rightarrow> bool" where
  "info_loaded s \<longleftrightarrow> g_gameCardInterfaceInit s
                     \<and> g_gameCardStatus s = GameCardStatus_InsertedAndInfoLoaded"

section \<open>Concrete values for the examples\<close>

text \<open>The values that the headers of nxdumptool give to the parameters of the model.\<close>

definition nxdumptool_h :: gamecard_h where
  "nxdumptool_h =
     \<lparr>GAMECARD_HEAD_MAGIC = 0x48454144, HFS0_MAGIC = 0x48465330,
      GAMECARD_CERTIFICATE_OFFSET = 0x7000, sizeof_FsGameCardCertificate = 0x200,
      sizeof_GameCardHeader = 0x200, sizeof_HashFileSystemHeader = 0x10,
      sizeof_HashFileSystemEntry = 0x40,
      GameCardRomSize_1GiB = 0xFA, GameCardRomSize_2GiB = 0xF8, GameCardRomSize_4GiB = 0xF0,
      GameCardRomSize_8GiB = 0xE0, GameCardRomSize_16GiB = 0xE1, GameCardRomSize_32GiB = 0xE2,
      GameCardStatus_value =
        (\<lambda>st. case st of
           GameCardStatus_NotInserted \<Rightarrow> 0
         | GameCardStatus_NoGameCardPatchEnabled \<Rightarrow> 1
         | GameCardStatus_LotusAsicFirmwareUpdateRequired \<Rightarrow> 2
         | GameCardStatus_InsertedAndInfoNotLoaded \<Rightarrow> 3
         | GameCardStatus_InsertedAndInfoLoaded \<Rightarrow> 4),
      GAMECARD_PAGE_OFFSET = (\<lambda>x. ucast x * 0x200),
      AES_128_KEY_SIZE = 16, SHA256_HASH_SIZE = 32\<rparr>"

definition GameCardRomSize_codes :: "gamecard_h \<Rightarrow> u8 list" where
  "GameCardRomSize_codes h =
     [GameCardRomSize_1GiB h, GameCardRomSize_2GiB h, GameCardRomSize_4GiB h,
      GameCardRomSize_8GiB h, GameCardRomSize_16GiB h, GameCardRomSize_32GiB h]"


text \<open>The state after \<open>gamecardInitialize\<close>, before a card is seen.\<close>

definition initial_state :: gc_state where
  "initial_state =
     \<lparr>g_gameCardInterfaceInit = True, g_lafwVersion = 3,
      g_gameCardStatus = GameCardStatus_NotInserted, g_gameCardHandle = 0,
      g_gameCardStorage_active = False,
      g_gameCardCurrentStorageArea = GameCardStorageArea_None,
      g_gameCardHeader = zero_GameCardHeader, g_gameCardInfoArea = zero_GameCardInfo,
      g_gameCardNormalAreaSize = 0, g_gameCardSecureAreaSize = 0, g_gameCardTotalSize = 0,
      g_gameCardCapacity = 0, g_gameCardHfsCount = 0, g_gameCardHfsCtx = None, trace = []\<rparr>"

text \<open>A state with the geometry of a 2 GiB card whose info is loaded.\<close>

definition loaded_state :: gc_state where
  "loaded_state =
     initial_state\<lparr>g_gameCardStatus := GameCardStatus_InsertedAndInfoLoaded,
                    g_gameCardNormalAreaSize := 0x8000, g_gameCardSecureAreaSize := 0x77FF8000,
                    g_gameCardTotalSize := 0x78000000, g_gameCardCapacity := 0x80000000\<rparr>"

text \<open>
  A card of 2 GiB with a root partition at 0xF000 that holds one partition, "secure".
  Every service succeeds; the decoders return the same records for any bytes.
\<close>

definition card_header :: GameCardHeader where
  "card_header =
     \<lparr>magic = 0x44414548, rom_size = 0xF8, package_id = replicate 8 0,
      valid_data_end_address = 0x1000, card_info_iv = replicate 16 0,
      partition_fs_header_address = 0xF000, partition_fs_header_size = 0x200,
      partition_fs_header_hash = replicate 32 0, initial_data_hash = replicate 32 0,
      card_info = replicate 0x70 0\<rparr>"

definition card_entry :: HashFileSystemEntry where
  "card_entry = \<lparr>entry_offset = 0, entry_size = 0x200, name_offset = 0,
                  hash_target_size = 0x200, hash_target_offset = 0,
                  entry_hash = replicate 32 0\<rparr>"

definition card_env :: gc_env where
  "card_env =
     \<lparr>fsDeviceOperatorGetGameCardHandle = (\<lambda>tr. Some 1),
      fsOpenGameCardStorage = (\<lambda>tr p. True),
      fsStorageRead = (\<lambda>tr area off n. True),
      storage_data = (\<lambda>area i. of_nat i),
      fsStorageGetSize = (\<lambda>tr area. Some (if area = GameCardStorageArea_Normal
                                            then 0x100000 else 0x77F00000)),
      keysGetGameCardInfoKey = Some (replicate 16 0),
      aes128CbcDecrypt = (\<lambda>key iv data. data),
      sha256CalculateHash = (\<lambda>data. replicate 32 0),
      utilsGetCustomFirmwareType_is_SXOS = False,
      alloc = (\<lambda>tr. True),
      decode_GameCardHeader = (\<lambda>data. card_header),
      decode_GameCardInfo = (\<lambda>data. \<lparr>fw_version = 1\<rparr>),
      decode_HashFileSystemHeader =
        (\<lambda>data. \<lparr>hfs_magic = 0x30534648, entry_count = 1, name_table_size = 0x10\<rparr>),
      hfsGetEntryCount = (\<lambda>data. 1),
      hfsGetEntryByIndex = (\<lambda>data i. card_entry),
      hfsGetNameTable_at = (\<lambda>data off. ''secure'')\<rparr>"

text \<open>The same card on a console whose firmware refuses every request for a handle.\<close>

definition nogc_env :: gc_env where
  "nogc_env = card_env\<lparr>fsDeviceOperatorGetGameCardHandle := (\<lambda>tr. None)\<rparr>"

definition inserted_state :: gc_state where
  "inserted_state = initial_state\<lparr>g_gameCardStatus := GameCardStatus_InsertedAndInfoNotLoaded\<rparr>"

text \<open>The same card with SX OS as the custom firmware.\<close>

definition sxos_env :: gc_env where
  "sxos_env = card_env\<lparr>utilsGetCustomFirmwareType_is_SXOS := True\<rparr>"

text \<open>The same card when its CardInfo area names firmware version 3, the installed one.\<close>

definition fw3_env :: gc_env where
  "fw3_env = card_env\<lparr>decode_GameCardInfo := (\<lambda>data. \<lparr>fw_version = 3\<rparr>)\<rparr>"

text \<open>The same card with an entry for "secure" whose hash is not the digest of its header.\<close>

definition bad_child_env :: gc_env where
  "bad_child_env =
     card_env\<lparr>hfsGetEntryByIndex := (\<lambda>data i. card_entry\<lparr>entry_hash := replicate 32 1\<rparr>)\<rparr>"

text \<open>The state of the load of that card once the geometry is known.\<close>

definition geometry_state :: gc_state where
  "geometry_state =
     inserted_state\<lparr>g_gameCardHeader := card_header, g_gameCardNormalAreaSize := 0x100000,
                     g_gameCardSecureAreaSize := 0x77F00000, g_gameCardTotalSize := 0x78000000,
                     g_gameCardCapacity := 0x80000000\<rparr>"

text \<open>The same card with a header whose ROM size code, 0, is not one of the table.\<close>

definition bad_rom_env :: gc_env where
  "bad_rom_env = card_env\<lparr>decode_GameCardHeader := (\<lambda>data. card_header\<lparr>rom_size := 0\<rparr>)\<rparr>"

section \<open>Lemmas\<close>

subsection \<open>Unfolding and framing\<close>

lemma gamecardReadStorageArea_unfold:
  "gamecardReadStorageArea h env s out read_size offset =
     (if gamecardReadStorageArea_invalid h s out read_size offset then (False, [], s)
      else if offset < g_gameCardNormalAreaSize s
              \<and> offset + read_size > g_gameCardNormalAreaSize s
      then (case gamecardReadStorageArea h env s out (g_gameCardNormalAreaSize s - offset) offset of
              (ok1, data1, s1) \<Rightarrow>
                if \<not> ok1 then (False, data1, s1)
                else gamecardReadStorageArea_area h env s1 out
                       (read_size - (g_gameCardNormalAreaSize s - offset))
                       (g_gameCardNormalAreaSize s1) GameCardStorageArea_Secure data1)
      else gamecardReadStorageArea_area h env s out read_size offset
             (if offset < g_gameCardNormalAreaSize s then GameCardStorageArea_Normal
              else GameCardStorageArea_Secure) [])"
  apply (subst gamecardReadStorageArea.simps)
  apply (unfold gamecardReadStorageArea_invalid_def gamecardReadStorageArea_area_def Let_def split_def)
  apply (cases "offset < g_gameCardNormalAreaSize s \<and> g_gameCardNormalAreaSize s < offset + read_size")
   apply (simp only: if_True if_False simp_thms fst_conv snd_conv)
  apply (simp only: if_True if_False simp_thms fst_conv snd_conv append_Nil)
  done


lemma trace_extends_refl [simp]: "trace_extends t t"
  by (simp add: trace_extends_def)

lemma trace_extends_trans: "trace_extends t t' \<Longrightarrow> trace_extends t' t'' \<Longrightarrow> trace_extends t t''"
  by (auto simp: trace_extends_def)

lemma trace_extends_Cons [simp]: "trace_extends t t' \<Longrightarrow> trace_extends t (e # t')"
  unfolding trace_extends_def by (metis append_Cons)

lemma card_frame_refl [simp]: "card_frame s s"
  by (simp add: card_frame_def)

lemma card_frame_trans: "card_frame s s' \<Longrightarrow> card_frame s' s'' \<Longrightarrow> card_frame s s''"
  unfolding card_frame_def by (auto intro: trace_extends_trans)

lemma card_frame_update [simp]:
  "card_frame s (s'\<lparr>g_gameCardHandle := v\<rparr>) = card_frame s s'"
  "card_frame s (s'\<lparr>g_gameCardStorage_active := b\<rparr>) = card_frame s s'"
  "card_frame s (s'\<lparr>g_gameCardCurrentStorageArea := a\<rparr>) = card_frame s s'"
  by (simp_all add: card_frame_def)

lemma card_frame_log_event [simp]: "card_frame s s' \<Longrightarrow> card_frame s (log_event e s')"
  by (simp add: card_frame_def log_event_def)

lemma card_frame_NoGameCardPatchEnabled:
  assumes "card_frame s s'" "g_gameCardStatus s' = GameCardStatus_InsertedAndInfoNotLoaded"
  shows "card_frame s (s'\<lparr>g_gameCardStatus := GameCardStatus_NoGameCardPatchEnabled\<rparr>)"
  using assms by (auto simp: card_frame_def)

lemma gamecardCloseHandle_frame [simp]: "card_frame s s' \<Longrightarrow> card_frame s (gamecardCloseHandle s')"
  by (simp add: gamecardCloseHandle_def)

lemma gamecardCloseStorageArea_frame [simp]:
  "card_frame s s' \<Longrightarrow> card_frame s (gamecardCloseStorageArea s')"
  by (simp add: gamecardCloseStorageArea_def Let_def)

lemma gamecardGetHandleAndStorage_tries_frame [simp]:
  "card_frame s0 s \<Longrightarrow> card_frame s0 (snd (gamecardGetHandleAndStorage_tries env p n rcf s))"
  by (induction n arbitrary: rcf s) (simp_all add: Let_def split: option.splits)

lemma gamecardGetHandleAndStorage_frame [simp]:
  "card_frame s0 s \<Longrightarrow> card_frame s0 (snd (gamecardGetHandleAndStorage h env s p))"
  by (auto simp: gamecardGetHandleAndStorage_def Let_def split_def intro!: card_frame_NoGameCardPatchEnabled)

lemma gamecardOpenStorageArea_frame [simp]:
  "card_frame s0 s \<Longrightarrow> card_frame s0 (snd (gamecardOpenStorageArea h env s area))"
  by (simp add: gamecardOpenStorageArea_def Let_def split_def)


lemmas chunk_less_self = chunk_less[OF _ order_refl]

lemma gamecardReadStorageArea_area_frame:
  assumes IH: "\<And>s3 rs' off'. unat rs' < unat rs2 \<Longrightarrow> card_frame s0 s3
                 \<Longrightarrow> card_frame s0 (snd (snd (gamecardReadStorageArea h env s3 out rs' off')))"
    and s1: "card_frame s0 s1"
  shows "card_frame s0 (snd (snd (gamecardReadStorageArea_area h env s1 out rs2 off2 area data1)))"
  unfolding gamecardReadStorageArea_area_def Let_def split_def
  using s1 by (auto intro!: IH chunk_less_self)

lemma gamecardReadStorageArea_frame:
  "card_frame s0 s \<Longrightarrow> card_frame s0 (snd (snd (gamecardReadStorageArea h env s out rs off)))"
proof (induction "unat rs" arbitrary: s rs off rule: less_induct)
  case less
  note IH = less.hyps
  show ?case
  proof (cases "gamecardReadStorageArea_invalid h s out rs off")
    case True
    then show ?thesis using less.prems by (subst gamecardReadStorageArea_unfold) simp
  next
    case valid: False
    show ?thesis
    proof (cases "off < g_gameCardNormalAreaSize s \<and> off + rs > g_gameCardNormalAreaSize s")
      case True
      let ?diff = "g_gameCardNormalAreaSize s - off"
      obtain ok1 data1 s1 where r1: "gamecardReadStorageArea h env s out ?diff off = (ok1, data1, s1)"
        by (cases "gamecardReadStorageArea h env s out ?diff off") auto
      have lt: "unat ?diff < unat rs" using True by (simp add: span_diff_less)
      have f1: "card_frame s0 s1" using IH[OF lt less.prems, of off] r1 by simp
      have le: "unat (rs - ?diff) \<le> unat rs"
        using True by (simp add: unat_sub span_diff_less)
      have "card_frame s0 (snd (snd (gamecardReadStorageArea_area h env s1 out (rs - ?diff)
              (g_gameCardNormalAreaSize s1) GameCardStorageArea_Secure data1)))"
        by (rule gamecardReadStorageArea_area_frame[OF _ f1]) (use le in \<open>auto intro: IH\<close>)
      then show ?thesis using valid True r1 f1
        by (subst gamecardReadStorageArea_unfold) simp
    next
      case False
      have "card_frame s0 (snd (snd (gamecardReadStorageArea_area h env s out rs off
              (if off < g_gameCardNormalAreaSize s then GameCardStorageArea_Normal
               else GameCardStorageArea_Secure) [])))"
        by (rule gamecardReadStorageArea_area_frame[OF _ less.prems]) (auto intro: IH)
      then show ?thesis using valid False
        by (subst gamecardReadStorageArea_unfold) auto
    qed
  qed
qed


subsection \<open>The retry loop\<close>

lemma new_events_append: "trace s' = evs @ trace s \<Longrightarrow> new_events s s' = evs"
  by (simp add: new_events_def)

lemma handle_requests_simps [simp]:
  "handle_requests [] = 0"
  "handle_requests (Ev_fsDeviceOperatorGetGameCardHandle # evs) = Suc (handle_requests evs)"
  "handle_requests (Ev_svcSleepThread ns # evs) = handle_requests evs"
  "handle_requests (Ev_fsOpenGameCardStorage p # evs) = handle_requests evs"
  "handle_requests (Ev_svcCloseHandle v # evs) = handle_requests evs"
  "handle_requests (evs @ evs') = handle_requests evs + handle_requests evs'"
  by (induction evs) (simp_all add: handle_requests_def)

lemma gamecardCloseHandle_trace:
  "\<exists>evs. trace (gamecardCloseHandle s) = evs @ trace s
         \<and> handle_requests evs = 0 \<and> (\<forall>b es. backoff_kept b (rev evs @ es) = backoff_kept b es)"
proof (cases "g_gameCardHandle s = 0")
  case True
  then have "trace (gamecardCloseHandle s) = [] @ trace s" by (simp add: gamecardCloseHandle_def)
  then show ?thesis by (intro exI[of _ "[]"]) simp
next
  case False
  then have "trace (gamecardCloseHandle s) = [Ev_svcCloseHandle (g_gameCardHandle s)] @ trace s"
    by (simp add: gamecardCloseHandle_def log_event_def)
  then show ?thesis by (intro exI[of _ "[Ev_svcCloseHandle (g_gameCardHandle s)]"]) simp
qed

lemma gamecardGetHandleAndStorage_tries_trace:
  "\<exists>evs. trace (snd (gamecardGetHandleAndStorage_tries env p n rcf s)) = evs @ trace s
         \<and> handle_requests evs \<le> n
         \<and> (fst (gamecardGetHandleAndStorage_tries env p n rcf s) \<longrightarrow> handle_requests evs = n)
         \<and> (\<forall>es. backoff_kept (rcf \<or> 0 < n) es \<longrightarrow> backoff_kept rcf (rev evs @ es))"
proof (induction n arbitrary: rcf s)
  case 0
  show ?case by simp
next
  case (Suc n)
  let ?sleep = "if rcf then [Ev_svcSleepThread 100000000] else []"
  let ?s1 = "if rcf then log_event (Ev_svcSleepThread 100000000) s else s"
  let ?s2 = "log_event Ev_fsDeviceOperatorGetGameCardHandle ?s1"
  have t2: "trace ?s2 = (Ev_fsDeviceOperatorGetGameCardHandle # ?sleep) @ trace s"
    by (simp add: log_event_def)
  have b2: "backoff_kept True es \<Longrightarrow>
            backoff_kept rcf (rev (Ev_fsDeviceOperatorGetGameCardHandle # ?sleep) @ es)" for es
    by simp
  show ?case
  proof (cases "fsDeviceOperatorGetGameCardHandle env (trace ?s1)")
    case None
    then have eq: "gamecardGetHandleAndStorage_tries env p (Suc n) rcf s
                 = gamecardGetHandleAndStorage_tries env p n True ?s2"
      by (simp add: Let_def)
    from Suc.IH[of True ?s2] obtain evs where
      tr: "trace (snd (gamecardGetHandleAndStorage_tries env p n True ?s2)) = evs @ trace ?s2"
      and le: "handle_requests evs \<le> n"
      and ex: "fst (gamecardGetHandleAndStorage_tries env p n True ?s2) \<longrightarrow> handle_requests evs = n"
      and bk: "\<forall>es. backoff_kept True es \<longrightarrow> backoff_kept True (rev evs @ es)"
      by auto
    let ?all = "evs @ Ev_fsDeviceOperatorGetGameCardHandle # ?sleep"
    have "trace (snd (gamecardGetHandleAndStorage_tries env p (Suc n) rcf s)) = ?all @ trace s"
      using tr t2 eq by simp
    moreover have "handle_requests ?all \<le> Suc n" using le by simp
    moreover have "fst (gamecardGetHandleAndStorage_tries env p (Suc n) rcf s)
                     \<longrightarrow> handle_requests ?all = Suc n"
      using ex eq by simp
    moreover have "\<forall>es. backoff_kept (rcf \<or> 0 < Suc n) es \<longrightarrow> backoff_kept rcf (rev ?all @ es)"
      using bk by simp
    ultimately show ?thesis by blast
  next
    case (Some v)
    let ?s3 = "?s2\<lparr>g_gameCardHandle := v\<rparr>"
    let ?s4 = "log_event (Ev_fsOpenGameCardStorage p) ?s3"
    let ?ev4 = "Ev_fsOpenGameCardStorage p # Ev_fsDeviceOperatorGetGameCardHandle # ?sleep"
    have t4: "trace ?s4 = ?ev4 @ trace s" by (simp add: log_event_def)
    show ?thesis
    proof (cases "fsOpenGameCardStorage env (trace ?s3) p")
      case True
      with Some have eq: "gamecardGetHandleAndStorage_tries env p (Suc n) rcf s
                 = (False, ?s4\<lparr>g_gameCardStorage_active := True\<rparr>)"
        by (simp add: Let_def)
      have "trace (snd (gamecardGetHandleAndStorage_tries env p (Suc n) rcf s)) = ?ev4 @ trace s"
        using eq t4 by simp
      moreover have "handle_requests ?ev4 \<le> Suc n" by simp
      moreover have "\<forall>es. backoff_kept (rcf \<or> 0 < Suc n) es \<longrightarrow> backoff_kept rcf (rev ?ev4 @ es)"
        by simp
      ultimately show ?thesis using eq by (intro exI[of _ ?ev4]) simp
    next
      case False
      let ?s5 = "gamecardCloseHandle ?s4"
      from False Some have eq: "gamecardGetHandleAndStorage_tries env p (Suc n) rcf s
                 = gamecardGetHandleAndStorage_tries env p n True ?s5"
        by (simp add: Let_def)
      from gamecardCloseHandle_trace[of ?s4] obtain cl where
        t5: "trace ?s5 = cl @ trace ?s4" and c0: "handle_requests cl = 0"
        and cb: "\<forall>b es. backoff_kept b (rev cl @ es) = backoff_kept b es"
        by blast
      from Suc.IH[of True ?s5] obtain evs where
        tr: "trace (snd (gamecardGetHandleAndStorage_tries env p n True ?s5)) = evs @ trace ?s5"
        and le: "handle_requests evs \<le> n"
        and ex: "fst (gamecardGetHandleAndStorage_tries env p n True ?s5) \<longrightarrow> handle_requests evs = n"
        and bk: "\<forall>es. backoff_kept True es \<longrightarrow> backoff_kept True (rev evs @ es)"
        by auto
      let ?all = "evs @ cl @ ?ev4"
      have "trace (snd (gamecardGetHandleAndStorage_tries env p (Suc n) rcf s)) = ?all @ trace s"
        using tr t5 t4 eq by simp
      moreover have "handle_requests ?all \<le> Suc n" using le c0 by simp
      moreover have "fst (gamecardGetHandleAndStorage_tries env p (Suc n) rcf s)
                       \<longrightarrow> handle_requests ?all = Suc n"
        using ex eq c0 by simp
      moreover have "\<forall>es. backoff_kept (rcf \<or> 0 < Suc n) es \<longrightarrow> backoff_kept rcf (rev ?all @ es)"
        using bk cb by simp
      ultimately show ?thesis by blast
    qed
  qed
qed

lemma gamecardGetHandleAndStorage_tries_status [simp]:
  "g_gameCardStatus (snd (gamecardGetHandleAndStorage_tries env p n rcf s)) = g_gameCardStatus s"
  by (induction n arbitrary: rcf s)
     (simp_all add: Let_def log_event_def gamecardCloseHandle_def split: option.splits)


lemma gamecardCloseHandle_status [simp]:
  "g_gameCardStatus (gamecardCloseHandle s) = g_gameCardStatus s"
  by (simp add: gamecardCloseHandle_def log_event_def)

lemma gamecardCloseStorageArea_status [simp]:
  "g_gameCardStatus (gamecardCloseStorageArea s) = g_gameCardStatus s"
  by (simp add: gamecardCloseStorageArea_def log_event_def Let_def)

lemma gamecardFreeInfo_False_status [simp]:
  "g_gameCardStatus (gamecardFreeInfo False s) = g_gameCardStatus s"
  by (simp add: gamecardFreeInfo_def Let_def)

lemma gamecardGetHandleAndStorage_status:
  "g_gameCardStatus (snd (gamecardGetHandleAndStorage h env s p)) =
     (if \<not> fst (gamecardGetHandleAndStorage h env s p)
         \<and> g_gameCardStatus s = GameCardStatus_InsertedAndInfoNotLoaded \<and> p = 0
      then GameCardStatus_NoGameCardPatchEnabled else g_gameCardStatus s)"
  by (simp add: gamecardGetHandleAndStorage_def Let_def split_def)

lemma gamecardOpenStorageArea_status:
  "g_gameCardStatus (snd (gamecardOpenStorageArea h env s area)) =
     (if \<not> fst (gamecardOpenStorageArea h env s area)
         \<and> g_gameCardStatus s = GameCardStatus_InsertedAndInfoNotLoaded
         \<and> area = GameCardStorageArea_Normal
      then GameCardStatus_NoGameCardPatchEnabled else g_gameCardStatus s)"
  by (cases area)
     (auto simp: gamecardOpenStorageArea_def Let_def split_def gamecardGetHandleAndStorage_status)


subsection \<open>Steps of the load\<close>

declare gamecardReadStorageArea_frame [simp]

lemma gamecardInitializeHashFileSystemContext_frame [simp]:
  "card_frame s0 s \<Longrightarrow>
   card_frame s0 (snd (gamecardInitializeHashFileSystemContext h env s name offset sz hash hto hts))"
  unfolding gamecardInitializeHashFileSystemContext_def hash_target_checked_def Let_def split_def
  by (simp split: option.splits)

lemma load_step_refl [simp]: "load_step s s"
  by (simp add: load_step_def)

lemma card_frame_load_step: "card_frame s s' \<Longrightarrow> load_step s s'"
  by (auto simp: card_frame_def load_step_def)

lemma load_step_trans: "load_step s s' \<Longrightarrow> load_step s' s'' \<Longrightarrow> load_step s s''"
  unfolding load_step_def by (auto intro: trace_extends_trans)

lemma load_step_card_frame: "load_step s0 s \<Longrightarrow> card_frame s s' \<Longrightarrow> load_step s0 s'"
  by (blast intro: load_step_trans card_frame_load_step)

lemma load_step_update [simp]:
  "load_step s (s'\<lparr>g_gameCardHandle := v\<rparr>) = load_step s s'"
  "load_step s (s'\<lparr>g_gameCardStorage_active := b\<rparr>) = load_step s s'"
  "load_step s (s'\<lparr>g_gameCardCurrentStorageArea := a\<rparr>) = load_step s s'"
  "load_step s (s'\<lparr>g_gameCardHeader := hv\<rparr>) = load_step s s'"
  "load_step s (s'\<lparr>g_gameCardInfoArea := ia\<rparr>) = load_step s s'"
  "load_step s (s'\<lparr>g_gameCardNormalAreaSize := n\<rparr>) = load_step s s'"
  "load_step s (s'\<lparr>g_gameCardSecureAreaSize := n\<rparr>) = load_step s s'"
  "load_step s (s'\<lparr>g_gameCardTotalSize := n\<rparr>) = load_step s s'"
  "load_step s (s'\<lparr>g_gameCardCapacity := n\<rparr>) = load_step s s'"
  "load_step s (s'\<lparr>g_gameCardHfsCount := c\<rparr>) = load_step s s'"
  "load_step s (s'\<lparr>g_gameCardHfsCtx := x\<rparr>) = load_step s s'"
  by (simp_all add: load_step_def)

lemma load_step_Loaded [simp]:
  "load_step s s' \<Longrightarrow> load_step s (s'\<lparr>g_gameCardStatus := GameCardStatus_InsertedAndInfoLoaded\<rparr>)"
  by (simp add: load_step_def)

lemma load_step_log_event [simp]: "load_step s s' \<Longrightarrow> load_step s (log_event e s')"
  by (simp add: load_step_def log_event_def)

lemma load_step_frames [simp]:
  assumes "load_step s0 s"
  shows "load_step s0 (gamecardCloseStorageArea s)"
    and "load_step s0 (snd (gamecardOpenStorageArea h env s area))"
    and "load_step s0 (snd (snd (gamecardReadStorageArea h env s out rs off)))"
    and "load_step s0 (snd (gamecardInitializeHashFileSystemContext h env s name offset sz hash hto hts))"
  using assms by (auto intro: load_step_card_frame)

lemma gamecardGetStorageAreasSizes_area_step [simp]:
  "load_step s0 s \<Longrightarrow> load_step s0 (snd (gamecardGetStorageAreasSizes_area h env s area))"
  unfolding gamecardGetStorageAreasSizes_area_def Let_def split_def
  by (simp split: option.splits)

lemma gamecardGetStorageAreasSizes_step [simp]:
  "load_step s0 s \<Longrightarrow> load_step s0 (snd (gamecardGetStorageAreasSizes h env s))"
  unfolding gamecardGetStorageAreasSizes_def Let_def split_def by simp

lemma gamecardLoadInfo_children_step [simp]:
  "load_step s0 s \<Longrightarrow> load_step s0 (snd (gamecardLoadInfo_children h env root nts idxs s))"
  by (induction idxs arbitrary: s) (simp_all add: Let_def split_def split: option.splits)

lemma gamecardLoadInfo_partitions_step [simp]:
  "load_step s0 s \<Longrightarrow> load_step s0 (gamecardLoadInfo_partitions h env s)"
  unfolding gamecardLoadInfo_partitions_def Let_def split_def
  by (simp split: option.splits)

lemma gamecardLoadInfo_geometry_step [simp]:
  "load_step s0 s \<Longrightarrow> load_step s0 (gamecardLoadInfo_geometry h env s)"
  unfolding gamecardLoadInfo_geometry_def Let_def split_def by simp

lemma gamecardFreeInfo_False_step [simp]:
  "load_step s0 s \<Longrightarrow> load_step s0 (gamecardFreeInfo False s)"
  unfolding gamecardFreeInfo_def Let_def by simp


lemma past_firmware_checkI:
  assumes "trace_extends (trace s) (trace sa)"
    and "load_step (log_event e sa) s'"
    and "e = Ev_fsStorageGetSize \<or> e = Ev_fsDeviceOperatorGetGameCardHandle"
  shows "past_firmware_check s s'"
proof -
  from assms(1) obtain evs0 where a: "trace sa = evs0 @ trace s" by (auto simp: trace_extends_def)
  from assms(2) obtain evs1 where "trace s' = evs1 @ e # trace sa"
    by (auto simp: load_step_def trace_extends_def log_event_def)
  with a have "trace s' = (evs1 @ e # evs0) @ trace s" by simp
  then have "new_events s s' = evs1 @ e # evs0" by (rule new_events_append)
  with assms(3) show ?thesis by (auto simp: past_firmware_check_def list_ex_iff)
qed

lemma gamecardGetHandleAndStorage_tries_first:
  "load_step (log_event Ev_fsDeviceOperatorGetGameCardHandle s)
     (snd (gamecardGetHandleAndStorage_tries env p (Suc n) False s))"
  by (auto simp: Let_def split: option.splits intro!: card_frame_load_step)

lemma gamecardOpenStorageArea_Normal_first:
  assumes "g_gameCardStatus s = GameCardStatus_InsertedAndInfoNotLoaded"
  shows "(fst (gamecardOpenStorageArea h env s GameCardStorageArea_Normal)
          \<and> snd (gamecardOpenStorageArea h env s GameCardStorageArea_Normal) = s)
       \<or> load_step (log_event Ev_fsDeviceOperatorGetGameCardHandle (gamecardCloseStorageArea s))
            (snd (gamecardOpenStorageArea h env s GameCardStorageArea_Normal))"
proof -
  have "load_step (log_event Ev_fsDeviceOperatorGetGameCardHandle (gamecardCloseStorageArea s))
          (snd (gamecardGetHandleAndStorage_tries env 0 10 False (gamecardCloseStorageArea s)))"
    using gamecardGetHandleAndStorage_tries_first[of "gamecardCloseStorageArea s" env 0 9]
    by (simp add: eval_nat_numeral)
  then show ?thesis using assms
    by (auto simp: gamecardOpenStorageArea_def gamecardGetHandleAndStorage_def Let_def split_def
        load_step_def)
qed

lemma gamecardGetStorageAreasSizes_area_Normal_first:
  assumes "g_gameCardStatus s = GameCardStatus_InsertedAndInfoNotLoaded"
  shows "\<exists>sa e. trace_extends (trace s) (trace sa)
           \<and> (e = Ev_fsStorageGetSize \<or> e = Ev_fsDeviceOperatorGetGameCardHandle)
           \<and> load_step (log_event e sa)
                (snd (gamecardGetStorageAreasSizes_area h env s GameCardStorageArea_Normal))"
proof -
  let ?o = "gamecardOpenStorageArea h env s GameCardStorageArea_Normal"
  from gamecardOpenStorageArea_Normal_first[OF assms, of h env]
  consider (same) "snd ?o = s" "fst ?o"
    | (reopened) "load_step (log_event Ev_fsDeviceOperatorGetGameCardHandle
                               (gamecardCloseStorageArea s)) (snd ?o)"
    by blast
  then show ?thesis
  proof cases
    case same
    then have "load_step (log_event Ev_fsStorageGetSize s)
                 (snd (gamecardGetStorageAreasSizes_area h env s GameCardStorageArea_Normal))"
      unfolding gamecardGetStorageAreasSizes_area_def Let_def split_def
      by (simp split: option.splits)
    then show ?thesis by (intro exI[of _ s] exI[of _ Ev_fsStorageGetSize]) simp
  next
    case reopened
    then have "load_step (log_event Ev_fsDeviceOperatorGetGameCardHandle (gamecardCloseStorageArea s))
                 (snd (gamecardGetStorageAreasSizes_area h env s GameCardStorageArea_Normal))"
      unfolding gamecardGetStorageAreasSizes_area_def Let_def split_def
      by (simp split: option.splits)
    moreover have "trace_extends (trace s) (trace (gamecardCloseStorageArea s))"
      using gamecardCloseStorageArea_frame[OF card_frame_refl, of s] by (simp add: card_frame_def)
    ultimately show ?thesis
      by (intro exI[of _ "gamecardCloseStorageArea s"]
          exI[of _ Ev_fsDeviceOperatorGetGameCardHandle]) simp
  qed
qed

lemma gamecardLoadInfo_geometry_past_check:
  assumes "g_gameCardStatus s = GameCardStatus_InsertedAndInfoNotLoaded"
  shows "past_firmware_check s (gamecardFreeInfo False (gamecardLoadInfo_geometry h env s))"
    and "past_firmware_check s (gamecardLoadInfo_geometry h env s)"
proof -
  from gamecardGetStorageAreasSizes_area_Normal_first[OF assms, of h env] obtain sa e where
    ext: "trace_extends (trace s) (trace sa)"
    and e: "e = Ev_fsStorageGetSize \<or> e = Ev_fsDeviceOperatorGetGameCardHandle"
    and st: "load_step (log_event e sa)
               (snd (gamecardGetStorageAreasSizes_area h env s GameCardStorageArea_Normal))"
    by blast
  from st have g: "load_step (log_event e sa) (gamecardLoadInfo_geometry h env s)"
    unfolding gamecardLoadInfo_geometry_def gamecardGetStorageAreasSizes_def Let_def split_def
    by simp
  then have f: "load_step (log_event e sa) (gamecardFreeInfo False (gamecardLoadInfo_geometry h env s))"
    by simp
  from past_firmware_checkI[OF ext f e]
  show "past_firmware_check s (gamecardFreeInfo False (gamecardLoadInfo_geometry h env s))" .
  from past_firmware_checkI[OF ext g e]
  show "past_firmware_check s (gamecardLoadInfo_geometry h env s)" .
qed


lemma gamecardReadHeader_success:
  assumes "gamecardReadHeader h env s = (True, s1)"
  shows "g_gameCardStatus s1 = g_gameCardStatus s" and "g_lafwVersion s1 = g_lafwVersion s"
proof -
  let ?o = "gamecardOpenStorageArea h env s GameCardStorageArea_Normal"
  from assms have o: "fst ?o"
    and s1: "s1 = (log_event (Ev_fsStorageRead To_g_gameCardHeader 0 (sizeof_GameCardHeader h)) (snd ?o))
                   \<lparr>g_gameCardHeader := g_gameCardHeader s1\<rparr>"
    by (auto simp: gamecardReadHeader_def Let_def split_def split: if_splits)
  have st: "g_gameCardStatus (snd ?o) = g_gameCardStatus s"
    using o by (simp add: gamecardOpenStorageArea_status)
  have lv: "g_lafwVersion (snd ?o) = g_lafwVersion s"
    using gamecardOpenStorageArea_frame[OF card_frame_refl, of s h env GameCardStorageArea_Normal]
    by (simp add: card_frame_def)
  show "g_gameCardStatus s1 = g_gameCardStatus s"
    by (subst s1) (simp add: log_event_def st)
  show "g_lafwVersion s1 = g_lafwVersion s"
    by (subst s1) (simp add: log_event_def lv)
qed

lemma gamecardGetDecryptedCardInfoArea_success:
  assumes "gamecardGetDecryptedCardInfoArea h env s1 = (True, s2)"
  shows "s2 = s1\<lparr>g_gameCardInfoArea := g_gameCardInfoArea s2\<rparr>"
  using assms by (auto simp: gamecardGetDecryptedCardInfoArea_def Let_def split: option.splits)

lemma gamecardFreeInfo_not_past_check:
  assumes "trace s' = trace s"
  shows "\<not> past_firmware_check s (gamecardFreeInfo False s')"
  using assms
  by (simp add: past_firmware_check_def new_events_def gamecardFreeInfo_def
      gamecardCloseStorageArea_def gamecardCloseHandle_def log_event_def Let_def)


subsection \<open>Verified Hash FS contexts\<close>

lemma unat_ucast_32_64: "unat (ucast (x::u32) :: u64) = unat x"
proof -
  have "unat x < 2 ^ 32" using unsigned_less[of x] by simp
  then have "unat x < 2 ^ 64" by simp
  then show ?thesis by (simp add: unsigned_ucast_eq take_bit_nat_eq_self_iff)
qed

lemma hash_window_word:
  fixes hto hs :: u64 and hts :: u32
  assumes "unat hto + unat hts \<le> unat hs"
  shows "hto + ucast hts \<le> hs"
proof -
  have u: "unat (ucast hts :: u64) = unat hts" by (rule unat_ucast_32_64)
  have "unat hs < 2 ^ 64" using unsigned_less[of hs] by simp
  with assms u have "unat (hto + ucast hts) = unat hto + unat hts"
    by (simp add: unat_plus_if')
  with assms show ?thesis by (simp add: word_le_nat_alt)
qed

lemma gamecardInitializeHashFileSystemContext_verified:
  assumes "gamecardInitializeHashFileSystemContext h env s name offset sz (Some expected) hto hts
             = (Some ctx, s')"
  shows "node_verified h env expected hto hts ctx"
  using assms
  unfolding gamecardInitializeHashFileSystemContext_def hash_target_checked_def Let_def split_def
    node_verified_def
  by (auto split: if_splits option.splits dest: hash_window_word)


lemma status_step_refl [simp]: "status_step s s"
  by (simp add: status_step_def)

lemma status_step_card_frame: "status_step s0 s \<Longrightarrow> card_frame s s' \<Longrightarrow> status_step s0 s'"
  by (auto simp: status_step_def card_frame_def)

lemma status_step_update [simp]:
  "status_step s (s'\<lparr>g_gameCardHandle := v\<rparr>) = status_step s s'"
  "status_step s (s'\<lparr>g_gameCardStorage_active := b\<rparr>) = status_step s s'"
  "status_step s (s'\<lparr>g_gameCardCurrentStorageArea := a\<rparr>) = status_step s s'"
  "status_step s (s'\<lparr>g_gameCardHeader := hv\<rparr>) = status_step s s'"
  "status_step s (s'\<lparr>g_gameCardInfoArea := ia\<rparr>) = status_step s s'"
  "status_step s (s'\<lparr>g_gameCardNormalAreaSize := n\<rparr>) = status_step s s'"
  "status_step s (s'\<lparr>g_gameCardSecureAreaSize := n\<rparr>) = status_step s s'"
  "status_step s (s'\<lparr>g_gameCardTotalSize := n\<rparr>) = status_step s s'"
  "status_step s (s'\<lparr>g_gameCardCapacity := n\<rparr>) = status_step s s'"
  "status_step s (s'\<lparr>g_gameCardHfsCount := c\<rparr>) = status_step s s'"
  "status_step s (s'\<lparr>g_gameCardHfsCtx := x\<rparr>) = status_step s s'"
  "status_step s (log_event e s') = status_step s s'"
  by (simp_all add: status_step_def log_event_def)

lemma status_step_frames [simp]:
  assumes "status_step s0 s"
  shows "status_step s0 (gamecardCloseStorageArea s)"
    and "status_step s0 (snd (gamecardOpenStorageArea h env s area))"
    and "status_step s0 (snd (snd (gamecardReadStorageArea h env s out rs off)))"
    and "status_step s0 (snd (gamecardInitializeHashFileSystemContext h env s name offset sz hash hto hts))"
  using assms by (auto intro: status_step_card_frame)

lemma gamecardGetStorageAreasSizes_status_step [simp]:
  "status_step s0 s \<Longrightarrow> status_step s0 (snd (gamecardGetStorageAreasSizes h env s))"
  unfolding gamecardGetStorageAreasSizes_def gamecardGetStorageAreasSizes_area_def Let_def split_def
  by (simp split: option.splits)

lemma gamecardReadHeader_status_step [simp]:
  "status_step s0 s \<Longrightarrow> status_step s0 (snd (gamecardReadHeader h env s))"
  unfolding gamecardReadHeader_def Let_def split_def by simp

lemma gamecardGetDecryptedCardInfoArea_status_step [simp]:
  "status_step s0 s \<Longrightarrow> status_step s0 (snd (gamecardGetDecryptedCardInfoArea h env s))"
  unfolding gamecardGetDecryptedCardInfoArea_def Let_def by (simp split: option.splits)

lemma gamecardLoadInfo_children_status_step [simp]:
  "status_step s0 s \<Longrightarrow> status_step s0 (snd (gamecardLoadInfo_children h env root nts idxs s))"
  by (induction idxs arbitrary: s) (simp_all add: Let_def split_def split: option.splits)


lemma gamecardInitializeHashFileSystemContext_keeps:
  "g_gameCardHeader (snd (gamecardInitializeHashFileSystemContext h env s name offset sz hash hto hts))
     = g_gameCardHeader s"
  "g_gameCardHfsCtx (snd (gamecardInitializeHashFileSystemContext h env s name offset sz hash hto hts))
     = g_gameCardHfsCtx s"
  "g_gameCardHfsCount (snd (gamecardInitializeHashFileSystemContext h env s name offset sz hash hto hts))
     = g_gameCardHfsCount s"
  using gamecardInitializeHashFileSystemContext_frame[OF card_frame_refl,
      of s h env name offset sz hash hto hts]
  by (simp_all add: card_frame_def)

lemma gamecardLoadInfo_children_keeps:
  "g_gameCardHeader (snd (gamecardLoadInfo_children h env root nts idxs s)) = g_gameCardHeader s"
  "g_gameCardHfsCount (snd (gamecardLoadInfo_children h env root nts idxs s)) = g_gameCardHfsCount s"
  by (induction idxs arbitrary: s)
     (simp_all add: Let_def split_def gamecardInitializeHashFileSystemContext_keeps
       split: option.splits)

lemma gamecardLoadInfo_children_invariant:
  assumes "gamecardLoadInfo_children h env root nts idxs s = (True, s')"
    and "g_gameCardHfsCtx s = Some arr" and "length arr \<le> 2 ^ 32"
  shows "\<exists>arr'. g_gameCardHfsCtx s' = Some arr' \<and> length arr' = length arr
           \<and> (arr \<noteq> [] \<longrightarrow> arr' ! 0 = arr ! 0)
           \<and> (\<forall>j. 1 \<le> j \<and> j < length arr
                    \<and> (child_slot_verified h env root arr j \<or> of_nat (j - 1) \<in> set idxs)
                  \<longrightarrow> child_slot_verified h env root arr' j)"
  using assms
proof (induction idxs arbitrary: s arr)
  case Nil
  then show ?case by auto
next
  case (Cons i rest)
  let ?e = "hfsGetEntryByIndex env (ctx_header root) i"
  let ?init = "gamecardInitializeHashFileSystemContext h env s
                 (Some (hfsGetNameTable_at env (ctx_header root) (name_offset ?e)))
                 (ctx_offset root + ctx_header_size root + entry_offset ?e) (entry_size ?e)
                 (Some (entry_hash ?e)) (hash_target_offset ?e) (hash_target_size ?e)"
  from Cons.prems(1) obtain c where c: "fst ?init = Some c"
    by (auto simp: Let_def split_def split: if_splits option.splits)
  let ?arr1 = "arr[unat i + 1 := Some c]"
  let ?s1 = "(snd ?init)\<lparr>g_gameCardHfsCtx := Some ?arr1\<rparr>"
  have ctx1: "g_gameCardHfsCtx (snd ?init) = Some arr"
    by (simp add: gamecardInitializeHashFileSystemContext_keeps Cons.prems(2))
  from Cons.prems(1) c ctx1 have rec: "gamecardLoadInfo_children h env root nts rest ?s1 = (True, s')"
    by (auto simp: Let_def split_def split: if_splits)
  have "?init = (Some c, snd ?init)" using c by (metis prod.collapse)
  from gamecardInitializeHashFileSystemContext_verified[OF this]
  have cv: "child_verified h env root i c" by (simp add: child_verified_def)
  from Cons.IH[OF rec, of ?arr1] Cons.prems(3) obtain arr' where
    a1: "g_gameCardHfsCtx s' = Some arr'" and a2: "length arr' = length arr"
    and a3: "arr \<noteq> [] \<longrightarrow> arr' ! 0 = arr ! 0"
    and a4: "\<forall>j. 1 \<le> j \<and> j < length arr
                \<and> (child_slot_verified h env root ?arr1 j \<or> of_nat (j - 1) \<in> set rest)
              \<longrightarrow> child_slot_verified h env root arr' j"
    by auto
  have step: "child_slot_verified h env root ?arr1 j \<or> of_nat (j - 1) \<in> set rest"
    if j: "1 \<le> j" "j < length arr"
      and ok: "child_slot_verified h env root arr j \<or> of_nat (j - 1) \<in> set (i # rest)" for j
  proof (cases "j = unat i + 1")
    case True
    then have "of_nat (j - 1) = i" by simp
    with True j cv show ?thesis by (simp add: child_slot_verified_def)
  next
    case False
    have "j - 1 < 2 ^ 32" using j Cons.prems(3) by simp
    then have "unat (of_nat (j - 1) :: u32) = j - 1" by (simp add: unat_of_nat)
    with False j have "of_nat (j - 1) \<noteq> i" by auto
    with ok False show ?thesis by (auto simp: child_slot_verified_def)
  qed
  from a1 a2 a3 a4 step show ?case by blast
qed


lemma status_step_not_loaded:
  "status_step s s' \<Longrightarrow> g_gameCardStatus s \<noteq> GameCardStatus_InsertedAndInfoLoaded
     \<Longrightarrow> g_gameCardStatus s' \<noteq> GameCardStatus_InsertedAndInfoLoaded"
  by (auto simp: status_step_def)

lemma gamecardLoadInfo_partitions_loaded:
  assumes nl: "g_gameCardStatus s \<noteq> GameCardStatus_InsertedAndInfoLoaded"
    and ld: "g_gameCardStatus (gamecardLoadInfo_partitions h env s)
               = GameCardStatus_InsertedAndInfoLoaded"
  shows "\<exists>arr. g_gameCardHfsCtx (gamecardLoadInfo_partitions h env s) = Some arr
           \<and> length arr = unat (g_gameCardHfsCount (gamecardLoadInfo_partitions h env s))
           \<and> all_nodes_verified h env
                 (g_gameCardHeader (gamecardLoadInfo_partitions h env s)) arr"
proof -
  let ?hdr = "g_gameCardHeader s"
  let ?init = "gamecardInitializeHashFileSystemContext h env s None
                 (partition_fs_header_address ?hdr) 0 (Some (partition_fs_header_hash ?hdr)) 0
                 (ucast (partition_fs_header_size ?hdr))"
  let ?s1 = "snd ?init"
  have nl1: "g_gameCardStatus ?s1 \<noteq> GameCardStatus_InsertedAndInfoLoaded"
    by (rule status_step_not_loaded[OF _ nl]) simp
  obtain root where root: "fst ?init = Some root"
    using ld nl1 by (cases "fst ?init") (auto simp: gamecardLoadInfo_partitions_def split_def)
  let ?c = "hfsGetEntryCount env (ctx_header root)"
  let ?s2 = "?s1\<lparr>g_gameCardHfsCount := ?c + 1\<rparr>"
  let ?s3 = "log_event Ev_alloc ?s2"
  let ?n = "unat (?c + 1)"
  let ?arr0 = "(replicate ?n None)[0 := Some root]"
  let ?s4 = "?s3\<lparr>g_gameCardHfsCtx := Some ?arr0\<rparr>"
  let ?ch = "gamecardLoadInfo_children h env root
               (name_table_size (decode_HashFileSystemHeader env (ctx_header root)))
               (map of_nat [0 ..< unat ?c]) ?s4"
  have nl3: "g_gameCardStatus ?s3 \<noteq> GameCardStatus_InsertedAndInfoLoaded"
    using nl1 by (simp add: log_event_def)
  have nl5: "g_gameCardStatus (snd ?ch) \<noteq> GameCardStatus_InsertedAndInfoLoaded"
    by (rule status_step_not_loaded[OF _ nl]) simp
  have al: "alloc env (trace ?s2)" and ok: "fst ?ch"
    and fin: "gamecardLoadInfo_partitions h env s
                = (snd ?ch)\<lparr>g_gameCardStatus := GameCardStatus_InsertedAndInfoLoaded\<rparr>"
    using ld nl3 nl5 root
    by (auto simp: gamecardLoadInfo_partitions_def split_def Let_def log_event_def
        split: if_splits)
  have ch: "?ch = (True, snd ?ch)" using ok by (metis prod.collapse)
  have "unat (?c + 1) < 2 ^ 32" using unsigned_less[of "?c + 1"] by simp
  then have len0: "length ?arr0 \<le> 2 ^ 32" by simp
  have c4: "g_gameCardHfsCtx ?s4 = Some ?arr0" by simp
  from gamecardLoadInfo_children_invariant[OF ch c4 len0] obtain arr' where
    inv: "g_gameCardHfsCtx (snd ?ch) = Some arr' \<and> length arr' = length ?arr0
          \<and> (?arr0 \<noteq> [] \<longrightarrow> arr' ! 0 = ?arr0 ! 0)
          \<and> (\<forall>j. 1 \<le> j \<and> j < length ?arr0
                \<and> (child_slot_verified h env root ?arr0 j
                    \<or> (of_nat (j - 1) :: u32) \<in> set (map of_nat [0 ..< unat ?c]))
              \<longrightarrow> child_slot_verified h env root arr' j)" ..
  note a1 = inv[THEN conjunct1]
  note a2' = inv[THEN conjunct2, THEN conjunct1]
  note a3 = inv[THEN conjunct2, THEN conjunct2, THEN conjunct1]
  note a4 = inv[THEN conjunct2, THEN conjunct2, THEN conjunct2]
  from a2' have a2: "length arr' = ?n" by simp
  have hdr: "g_gameCardHeader (snd ?ch) = ?hdr"
    by (simp add: gamecardLoadInfo_children_keeps gamecardInitializeHashFileSystemContext_keeps
        log_event_def)
  have cnt: "g_gameCardHfsCount (snd ?ch) = ?c + 1"
    by (simp add: gamecardLoadInfo_children_keeps log_event_def)
  have "?init = (Some root, ?s1)" using root by (metis prod.collapse)
  from gamecardInitializeHashFileSystemContext_verified[OF this]
  have rv: "root_verified h env ?hdr root" by (simp add: root_verified_def)
  have n_le: "?n \<le> unat ?c + 1" by unat_arith
  have slot: "slot_verified h env ?hdr arr' j" if j: "j < ?n" for j
  proof (cases "j = 0")
    case True
    with j a3 rv show ?thesis by (simp add: slot_verified_def)
  next
    case False
    with j n_le have "j - 1 < unat ?c" by simp
    then have "(of_nat (j - 1) :: u32) \<in> set (map of_nat [0 ..< unat ?c])" by simp
    with a4 j False have "child_slot_verified h env root arr' j" by simp
    moreover have "arr' ! 0 = Some root" using a3 j by simp
    ultimately show ?thesis using False by (auto simp: slot_verified_def child_slot_verified_def)
  qed
  then have "all_nodes_verified h env ?hdr arr'"
    by (simp add: all_nodes_verified_def list_all_iff a2)
  with a1 a2 hdr cnt show ?thesis by (simp add: fin)
qed


lemma gamecardFreeInfo_released:
  "g_gameCardHfsCtx (gamecardFreeInfo b s) = None"
  "g_gameCardHfsCount (gamecardFreeInfo b s) = 0"
  "\<not> g_gameCardStorage_active (gamecardFreeInfo b s)"
  "g_gameCardHandle (gamecardFreeInfo b s) = 0"
  by (simp_all add: gamecardFreeInfo_def gamecardCloseStorageArea_def gamecardCloseHandle_def
      log_event_def Let_def)


subsection \<open>A ROM size code outside the table\<close>

lemma card_frame_Header:
  "card_frame s s' \<Longrightarrow> g_gameCardHeader s' = g_gameCardHeader s"
  by (simp add: card_frame_def)

lemma gamecardOpenStorageArea_Header [simp]:
  "g_gameCardHeader (snd (gamecardOpenStorageArea h env s area)) = g_gameCardHeader s"
  by (rule card_frame_Header) simp

lemma gamecardCloseStorageArea_Header [simp]:
  "g_gameCardHeader (gamecardCloseStorageArea s) = g_gameCardHeader s"
  by (rule card_frame_Header) simp

lemma log_event_Header [simp]: "g_gameCardHeader (log_event e s) = g_gameCardHeader s"
  by (simp add: log_event_def)

lemma gamecardGetStorageAreasSizes_area_Header:
  "g_gameCardHeader (snd (gamecardGetStorageAreasSizes_area h env s area)) = g_gameCardHeader s"
  unfolding gamecardGetStorageAreasSizes_area_def Let_def split_def
  by (simp split: option.splits)

lemma gamecardFreeInfo_Capacity: "g_gameCardCapacity (gamecardFreeInfo b s) = 0"
  by (simp add: gamecardFreeInfo_def gamecardCloseStorageArea_def gamecardCloseHandle_def
      log_event_def Let_def)

lemma gamecardGetStorageAreasSizes_Header:
  "g_gameCardHeader (snd (gamecardGetStorageAreasSizes h env s)) = g_gameCardHeader s"
  unfolding gamecardGetStorageAreasSizes_def Let_def split_def
  by (simp add: gamecardGetStorageAreasSizes_area_Header)

lemma gamecardGetDecryptedCardInfoArea_Header:
  "g_gameCardHeader (snd (gamecardGetDecryptedCardInfoArea h env s)) = g_gameCardHeader s"
  unfolding gamecardGetDecryptedCardInfoArea_def Let_def by (simp split: option.splits)

lemma gamecardGetCapacityFromRomSizeValue_zero:
  "c \<notin> set (GameCardRomSize_codes h) \<Longrightarrow> gamecardGetCapacityFromRomSizeValue h c = 0"
  by (auto simp: gamecardGetCapacityFromRomSizeValue_def GameCardRomSize_codes_def)

lemma gamecardLoadInfo_geometry_unknown_rom_size:
  assumes nl: "g_gameCardStatus s \<noteq> GameCardStatus_InsertedAndInfoLoaded"
    and z: "gamecardGetCapacityFromRomSizeValue h (rom_size (g_gameCardHeader s)) = 0"
  shows "g_gameCardStatus (gamecardLoadInfo_geometry h env s) \<noteq> GameCardStatus_InsertedAndInfoLoaded"
proof -
  have "g_gameCardStatus (snd (gamecardGetStorageAreasSizes h env s))
          \<noteq> GameCardStatus_InsertedAndInfoLoaded"
    by (rule status_step_not_loaded[OF _ nl]) simp
  then show ?thesis using z
    unfolding gamecardLoadInfo_geometry_def Let_def split_def
    by (simp add: gamecardGetStorageAreasSizes_Header)
qed

lemma gamecardLoadInfo_unknown_rom_size:
  assumes nl: "g_gameCardStatus s \<noteq> GameCardStatus_InsertedAndInfoLoaded"
    and z: "gamecardGetCapacityFromRomSizeValue h
              (rom_size (g_gameCardHeader (snd (gamecardReadHeader h env
                 (s\<lparr>g_gameCardStatus := GameCardStatus_InsertedAndInfoNotLoaded\<rparr>))))) = 0"
  shows "g_gameCardStatus (gamecardLoadInfo h env s) \<noteq> GameCardStatus_InsertedAndInfoLoaded"
proof -
  let ?s0 = "s\<lparr>g_gameCardStatus := GameCardStatus_InsertedAndInfoNotLoaded\<rparr>"
  let ?s1 = "snd (gamecardReadHeader h env ?s0)"
  let ?s2 = "snd (gamecardGetDecryptedCardInfoArea h env ?s1)"
  have nl0: "g_gameCardStatus ?s0 \<noteq> GameCardStatus_InsertedAndInfoLoaded" by simp
  have nl1: "g_gameCardStatus ?s1 \<noteq> GameCardStatus_InsertedAndInfoLoaded"
    by (rule status_step_not_loaded[OF _ nl0]) simp
  have nl2: "g_gameCardStatus ?s2 \<noteq> GameCardStatus_InsertedAndInfoLoaded"
    by (rule status_step_not_loaded[OF _ nl0]) simp
  have g: "g_gameCardStatus (gamecardLoadInfo_geometry h env ?s2)
             \<noteq> GameCardStatus_InsertedAndInfoLoaded"
    by (rule gamecardLoadInfo_geometry_unknown_rom_size[OF nl2])
      (simp add: gamecardGetDecryptedCardInfoArea_Header z)
  have "g_gameCardStatus (gamecardLoadInfo_steps h env ?s0) \<noteq> GameCardStatus_InsertedAndInfoLoaded"
    using nl1 nl2 g unfolding gamecardLoadInfo_steps_def Let_def split_def by simp
  then show ?thesis using nl by (simp add: gamecardLoadInfo_def Let_def)
qed


subsection \<open>The bytes and the transport reads of a read\<close>

lemma length_storage_bytes [simp]: "length (storage_bytes env area off n) = unat n"
  by (simp add: storage_bytes_def)

lemma storage_bytes_slice:
  assumes "unat bs + d = unat base" "d + unat n \<le> unat m"
  shows "take (unat n) (drop d (storage_bytes env area bs m)) = storage_bytes env area base n"
proof -
  have "take (unat n) [unat bs + d..<unat bs + unat m] = [unat bs + d..<unat bs + d + unat n]"
    using assms(2) by (simp add: take_upt)
  then show ?thesis
    by (simp add: storage_bytes_def drop_map take_map drop_upt assms(1)[symmetric])
qed

lemma storage_bytes_append:
  assumes "unat (base + oc) = unat base + unat oc" "unat (rs - oc) = unat rs - unat oc"
    "unat oc \<le> unat rs"
  shows "storage_bytes env area base oc @ storage_bytes env area (base + oc) (rs - oc)
           = storage_bytes env area base rs"
proof -
  have "[unat base..<unat base + unat oc + (unat rs - unat oc)]
          = [unat base..<unat base + unat oc] @ [unat base + unat oc..<unat base + unat oc + (unat rs - unat oc)]"
    by (rule upt_add_eq_append) simp
  then show ?thesis using assms by (simp add: storage_bytes_def)
qed

lemma unat_block_start:
  "unat (ALIGN_DOWN base GAMECARD_PAGE_SIZE) + unat (base mod 512) = unat (base :: u64)"
  by (simp add: ALIGN_DOWN_def GAMECARD_PAGE_SIZE_def unat_rounddown unat_mod)

lemma block_size_covers_nowrap:
  fixes base rs :: u64
  assumes "unat base + unat rs + 511 < 2 ^ 64"
  shows "unat (base mod 512) + unat rs
           \<le> unat (ALIGN_UP (base + rs) GAMECARD_PAGE_SIZE - ALIGN_DOWN base GAMECARD_PAGE_SIZE)"
proof -
  let ?X = "base + rs + 511"
  have br: "unat (base + rs) = unat base + unat rs" using assms by (simp add: unat_plus_if')
  have X: "unat ?X = unat base + unat rs + 511" using assms br by (simp add: unat_plus_if')
  have E: "unat (?X - ?X mod 512) = unat base + unat rs + 511 - (unat base + unat rs + 511) mod 512"
    by (simp add: unat_rounddown X)
  have S: "unat (base - base mod 512) = unat base - unat base mod 512" by (rule unat_rounddown)
  have m: "(unat base + unat rs + 511) mod 512 < 512" by simp
  have m': "unat base mod 512 \<le> unat base" by simp
  have le: "base - base mod 512 \<le> ?X - ?X mod 512"
    unfolding word_le_nat_alt E S using m m' by linarith
  have "unat ((?X - ?X mod 512) - (base - base mod 512))
          = (unat base + unat rs + 511 - (unat base + unat rs + 511) mod 512)
            - (unat base - unat base mod 512)"
    unfolding unat_sub[OF le] E S ..
  moreover have "ALIGN_UP (base + rs) GAMECARD_PAGE_SIZE - ALIGN_DOWN base GAMECARD_PAGE_SIZE
                   = (?X - ?X mod 512) - (base - base mod 512)"
    by (simp add: ALIGN_UP_def ALIGN_DOWN_def GAMECARD_PAGE_SIZE_def)
  ultimately have "unat (ALIGN_UP (base + rs) GAMECARD_PAGE_SIZE - ALIGN_DOWN base GAMECARD_PAGE_SIZE)
                   = (unat base + unat rs + 511 - (unat base + unat rs + 511) mod 512)
                     - (unat base - unat base mod 512)"
    by (simp only:)
  moreover have "unat (base mod 512) = unat base mod 512" by (simp add: unat_mod)
  ultimately show ?thesis using m m' by linarith
qed

lemma block_size_covers:
  fixes base rs :: u64
  assumes nr: "unat base + unat rs < 2 ^ 64" and buf: "unat rs < 2 ^ 63"
  shows "unat (base mod 512) + unat rs
           \<le> unat (ALIGN_UP (base + rs) GAMECARD_PAGE_SIZE - ALIGN_DOWN base GAMECARD_PAGE_SIZE)"
proof (cases "unat base + unat rs + 511 < 2 ^ 64")
  case True
  then show ?thesis by (rule block_size_covers_nowrap)
next
  case False
  let ?X = "base + rs + 511"
  let ?E = "?X - ?X mod 512"
  let ?S = "base - base mod 512"
  from nr have nr': "unat base + unat rs < 18446744073709551616" by simp
  from buf have buf': "unat rs < 9223372036854775808" by simp
  from False have w: "18446744073709551616 \<le> unat base + unat rs + 511" by simp
  have br: "unat (base + rs) = unat base + unat rs" using nr by (simp add: unat_plus_if')
  have X: "unat ?X = unat base + unat rs + 511 - 18446744073709551616"
    using False br by (simp add: unat_plus_if')
  with nr' have "unat ?X < 512" by linarith
  then have E: "unat ?E = 0" by (simp add: unat_rounddown)
  have S: "unat ?S = unat base - unat base mod 512" by (rule unat_rounddown)
  have m: "unat base mod 512 < 512" "unat base mod 512 \<le> unat base" by simp_all
  from w buf' have "512 \<le> unat base" by linarith
  with m S have S0: "0 < unat ?S" by linarith
  from S0 E have nle: "\<not> unat ?S \<le> unat ?E" by simp
  have "unat (?E - ?S) = unat ?E + 2 ^ LENGTH(64) - unat ?S"
    unfolding unat_sub_if'[of ?E ?S] using nle by (simp only: if_False)
  then have "unat (?E - ?S) = 18446744073709551616 - unat ?S"
    unfolding E by simp
  moreover have "ALIGN_UP (base + rs) GAMECARD_PAGE_SIZE - ALIGN_DOWN base GAMECARD_PAGE_SIZE
                   = ?E - ?S"
    by (simp add: ALIGN_UP_def ALIGN_DOWN_def GAMECARD_PAGE_SIZE_def)
  ultimately have "unat (ALIGN_UP (base + rs) GAMECARD_PAGE_SIZE - ALIGN_DOWN base GAMECARD_PAGE_SIZE)
                   = 18446744073709551616 - unat ?S"
    by (simp only:)
  moreover have "unat (base mod 512) = unat base mod 512" by (simp add: unat_mod)
  ultimately show ?thesis using m S nr' by linarith
qed

lemma card_frame_TotalSize:
  "card_frame s s' \<Longrightarrow> g_gameCardTotalSize s' = g_gameCardTotalSize s"
  by (simp add: card_frame_def)

lemma card_frame_NormalAreaSize:
  "card_frame s s' \<Longrightarrow> g_gameCardNormalAreaSize s' = g_gameCardNormalAreaSize s"
  by (simp add: card_frame_def)

lemma gamecardOpenStorageArea_NormalAreaSize [simp]:
  "g_gameCardNormalAreaSize (snd (gamecardOpenStorageArea h env s area)) = g_gameCardNormalAreaSize s"
  by (rule card_frame_NormalAreaSize) simp

lemma gamecardReadStorageArea_NormalAreaSize [simp]:
  "g_gameCardNormalAreaSize (snd (snd (gamecardReadStorageArea h env s out rs off)))
     = g_gameCardNormalAreaSize s"
  by (rule card_frame_NormalAreaSize) simp

lemma log_event_NormalAreaSize [simp]:
  "g_gameCardNormalAreaSize (log_event e s) = g_gameCardNormalAreaSize s"
  by (simp add: log_event_def)

lemma big_block_facts:
  fixes base rs :: u64
  assumes big: "ALIGN_UP (base + rs) GAMECARD_PAGE_SIZE - ALIGN_DOWN base GAMECARD_PAGE_SIZE
             > GAMECARD_READ_BUFFER_SIZE"
    and nw: "unat base + unat rs < 2 ^ 64"
  defines "oc \<equiv> GAMECARD_READ_BUFFER_SIZE - (base - ALIGN_DOWN base GAMECARD_PAGE_SIZE)"
  shows "unat oc < unat rs" "unat (rs - oc) = unat rs - unat oc"
    "unat (base + oc) = unat base + unat oc"
    "unat (base - ALIGN_DOWN base GAMECARD_PAGE_SIZE) + unat oc \<le> unat GAMECARD_READ_BUFFER_SIZE"
    "unat (rs - oc) < unat rs"
proof -
  have oc: "unat oc = 0x800000 - unat base mod 512" unfolding oc_def by (rule unat_out_chunk_size)
  from chunk_progress[OF big, folded oc_def] show lt: "unat oc < unat rs"
    and "unat (rs - oc) = unat rs - unat oc"
    unfolding oc by simp_all
  from lt nw show "unat (base + oc) = unat base + unat oc" by (simp add: unat_plus_if')
  have m: "unat base mod 512 < 512" by simp
  from chunk_progress[OF big, folded oc_def] m show "unat (rs - oc) < unat rs" by linarith
  from m show "unat (base - ALIGN_DOWN base GAMECARD_PAGE_SIZE) + unat oc \<le> unat GAMECARD_READ_BUFFER_SIZE"
    unfolding oc by (simp add: data_start_offset_eq unat_mod GAMECARD_READ_BUFFER_SIZE_def)
qed

lemma in_one_area_no_wrap:
  assumes "in_one_area s off rs"
  shows "unat off + unat rs < 2 ^ 64"
proof -
  have "unat (g_gameCardNormalAreaSize s) < 2 ^ 64" "unat (g_gameCardTotalSize s) < 2 ^ 64"
    using unsigned_less[of "g_gameCardNormalAreaSize s"] unsigned_less[of "g_gameCardTotalSize s"]
    by simp_all
  with assms show ?thesis unfolding in_one_area_def by auto
qed

lemma gamecardReadStorageArea_area_bytes:
  fixes rs2 off2 :: u64
  assumes IH: "\<And>s rs' off'. unat rs' < unat rs2
                 \<Longrightarrow> fst (gamecardReadStorageArea h env s True rs' off')
                 \<Longrightarrow> in_one_area s off' rs' \<Longrightarrow> unat rs' < 2 ^ 63
                 \<Longrightarrow> fst (snd (gamecardReadStorageArea h env s True rs' off'))
                       = storage_bytes env (storage_area_of s off') (base_offset_of s off') rs'"
    and ok: "fst (gamecardReadStorageArea_area h env s1 True rs2 off2 area p)"
    and area: "area = storage_area_of s1 off2"
    and ia: "in_one_area s1 off2 rs2"
    and buf: "unat rs2 < 2 ^ 63"
  shows "fst (snd (gamecardReadStorageArea_area h env s1 True rs2 off2 area p))
           = p @ storage_bytes env area (base_offset_of s1 off2) rs2"
proof -
  let ?N = "g_gameCardNormalAreaSize s1"
  let ?s2 = "snd (gamecardOpenStorageArea h env s1 area)"
  define base where "base = base_offset_of s1 off2"
  let ?bs = "ALIGN_DOWN base GAMECARD_PAGE_SIZE"
  let ?bsz = "ALIGN_UP (base + rs2) GAMECARD_PAGE_SIZE - ?bs"
  let ?oc = "GAMECARD_READ_BUFFER_SIZE - (base - ?bs)"
  let ?s3 = "log_event (Ev_fsStorageRead To_g_gameCardReadBuf ?bs GAMECARD_READ_BUFFER_SIZE) ?s2"
  have b: "(if area = GameCardStorageArea_Normal then off2 else off2 - g_gameCardNormalAreaSize ?s2)
             = base"
    by (simp add: base_def area base_offset_of_def storage_area_of_def)
  have ble: "unat base \<le> unat off2"
    by (simp add: base_def base_offset_of_def unat_sub word_le_nat_alt word_less_nat_alt)
  note nw = in_one_area_no_wrap[OF ia]
  with ble have nwb: "unat base + unat rs2 < 2 ^ 64" by simp
  show ?thesis
  proof (cases "base mod GAMECARD_PAGE_SIZE = 0 \<and> rs2 mod GAMECARD_PAGE_SIZE = 0")
    case True
    with ok show ?thesis
      unfolding gamecardReadStorageArea_area_def Let_def split_def b
      by (simp add: base_def split: if_splits)
  next
    case unaligned: False
    show ?thesis
    proof (cases "?bsz > GAMECARD_READ_BUFFER_SIZE")
      case False
      have "take (unat rs2) (drop (unat (base - ?bs)) (storage_bytes env area ?bs ?bsz))
              = storage_bytes env area base rs2"
        by (rule storage_bytes_slice)
          (use block_size_covers[OF nwb buf] in
            \<open>simp_all add: data_start_offset_eq unat_block_start\<close>)
      with ok unaligned False show ?thesis
        unfolding gamecardReadStorageArea_area_def Let_def split_def b
        by (auto simp: base_def split: if_splits)
    next
      case True
      note bf = big_block_facts[OF True nwb]
      have ok4: "fst (gamecardReadStorageArea h env ?s3 True (rs2 - ?oc) (off2 + ?oc))"
        using ok unaligned True
        unfolding gamecardReadStorageArea_area_def Let_def split_def b
        by (auto split: if_splits)
      have data: "fst (snd (gamecardReadStorageArea_area h env s1 True rs2 off2 area p))
            = p @ take (unat ?oc) (drop (unat (base - ?bs))
                    (storage_bytes env area ?bs GAMECARD_READ_BUFFER_SIZE))
                @ fst (snd (gamecardReadStorageArea h env ?s3 True (rs2 - ?oc) (off2 + ?oc)))"
        using ok unaligned True
        unfolding gamecardReadStorageArea_area_def Let_def split_def b
        by (auto split: if_splits)
      have sl: "take (unat ?oc) (drop (unat (base - ?bs))
                    (storage_bytes env area ?bs GAMECARD_READ_BUFFER_SIZE))
              = storage_bytes env area base ?oc"
        by (rule storage_bytes_slice)
          (use bf(4) in \<open>simp_all add: data_start_offset_eq unat_block_start\<close>)
      have N3: "g_gameCardNormalAreaSize ?s3 = ?N" by simp
      have offoc: "unat (off2 + ?oc) = unat off2 + unat ?oc"
        using bf(1) nw by (simp add: unat_plus_if')
      have T3: "g_gameCardTotalSize ?s3 = g_gameCardTotalSize s1"
        by (simp add: log_event_def card_frame_TotalSize)
      have ia3: "in_one_area ?s3 (off2 + ?oc) (rs2 - ?oc)"
        using ia bf(1) unfolding in_one_area_def N3 T3 offoc bf(2) word_le_nat_alt by linarith
      have buf3: "unat (rs2 - ?oc) < 2 ^ 63"
        using buf bf(5) by linarith
      have same: "off2 + ?oc < ?N \<longleftrightarrow> off2 < ?N"
        using ia bf(1) unfolding in_one_area_def word_less_nat_alt word_le_nat_alt offoc
        by linarith
      have area3: "storage_area_of ?s3 (off2 + ?oc) = area"
        using same by (simp add: storage_area_of_def area)
      have base3: "base_offset_of ?s3 (off2 + ?oc) = base + ?oc"
        using same by (simp add: base_def base_offset_of_def)
      have "fst (snd (gamecardReadStorageArea h env ?s3 True (rs2 - ?oc) (off2 + ?oc)))
              = storage_bytes env area (base + ?oc) (rs2 - ?oc)"
        using IH[OF bf(5) ok4 ia3 buf3] unfolding area3 base3 .
      then show ?thesis
        unfolding data sl using storage_bytes_append[OF bf(3) bf(2), of env area] bf(1)
        by (simp add: base_def)
    qed
  qed
qed

lemma in_one_area_no_span:
  assumes "in_one_area s off rs"
  shows "\<not> (off < g_gameCardNormalAreaSize s \<and> off + rs > g_gameCardNormalAreaSize s)"
proof -
  have "unat (off + rs) = unat off + unat rs"
    using in_one_area_no_wrap[OF assms] by (simp add: unat_plus_if')
  with assms show ?thesis
    unfolding in_one_area_def word_less_nat_alt word_le_nat_alt by linarith
qed

lemma gamecardReadStorageArea_in_one_area:
  assumes "in_one_area s off rs"
  shows "gamecardReadStorageArea h env s out rs off
           = (if gamecardReadStorageArea_invalid h s out rs off then (False, [], s)
              else gamecardReadStorageArea_area h env s out rs off (storage_area_of s off) [])"
  using in_one_area_no_span[OF assms]
  by (subst gamecardReadStorageArea_unfold) (auto simp: storage_area_of_def)

lemma gamecardReadStorageArea_bytes:
  "fst (gamecardReadStorageArea h env s True rs off) \<Longrightarrow> in_one_area s off rs
   \<Longrightarrow> unat rs < 2 ^ 63
   \<Longrightarrow> fst (snd (gamecardReadStorageArea h env s True rs off))
         = storage_bytes env (storage_area_of s off) (base_offset_of s off) rs"
proof (induction "unat rs" arbitrary: s rs off rule: less_induct)
  case less
  note eq = gamecardReadStorageArea_in_one_area[OF less.prems(2), of h env True]
  from less.prems(1) have ok: "fst (gamecardReadStorageArea_area h env s True rs off
                                      (storage_area_of s off) [])"
    unfolding eq by (simp split: if_splits)
  have "fst (snd (gamecardReadStorageArea_area h env s True rs off (storage_area_of s off) []))
          = [] @ storage_bytes env (storage_area_of s off) (base_offset_of s off) rs"
    by (rule gamecardReadStorageArea_area_bytes[OF less.hyps ok refl less.prems(2,3)])
  with less.prems(1) show ?case unfolding eq by (simp split: if_splits)
qed

lemma transport_reads_simps [simp]:
  "transport_reads [] = []"
  "transport_reads (e # evs) = (if is_transport_read e then e # transport_reads evs
                                else transport_reads evs)"
  "transport_reads (evs @ evs') = transport_reads evs @ transport_reads evs'"
  by (simp_all add: transport_reads_def)

lemma no_reads_refl [simp]: "no_reads s s"
  by (simp add: no_reads_def)

lemma no_reads_log_event [simp]:
  "\<not> is_transport_read e \<Longrightarrow> no_reads s0 s \<Longrightarrow> no_reads s0 (log_event e s)"
  unfolding no_reads_def log_event_def
  by (elim exE conjE, rule_tac x="e # evs" in exI) simp

lemma no_reads_update [simp]:
  "no_reads s0 s \<Longrightarrow> no_reads s0 (s\<lparr>g_gameCardHandle := v\<rparr>)"
  "no_reads s0 s \<Longrightarrow> no_reads s0 (s\<lparr>g_gameCardStorage_active := b\<rparr>)"
  "no_reads s0 s \<Longrightarrow> no_reads s0 (s\<lparr>g_gameCardCurrentStorageArea := a\<rparr>)"
  "no_reads s0 s \<Longrightarrow> no_reads s0 (s\<lparr>g_gameCardStatus := st\<rparr>)"
  by (simp_all add: no_reads_def)

lemma gamecardCloseHandle_no_reads [simp]:
  "no_reads s0 s \<Longrightarrow> no_reads s0 (gamecardCloseHandle s)"
  by (simp add: gamecardCloseHandle_def)

lemma gamecardCloseStorageArea_no_reads [simp]:
  "no_reads s0 s \<Longrightarrow> no_reads s0 (gamecardCloseStorageArea s)"
  by (simp add: gamecardCloseStorageArea_def Let_def)

lemma gamecardGetHandleAndStorage_tries_no_reads [simp]:
  "no_reads s0 s \<Longrightarrow> no_reads s0 (snd (gamecardGetHandleAndStorage_tries env p n rcf s))"
  by (induction n arbitrary: rcf s) (simp_all add: Let_def split: option.splits)

lemma gamecardGetHandleAndStorage_no_reads [simp]:
  "no_reads s0 s \<Longrightarrow> no_reads s0 (snd (gamecardGetHandleAndStorage h env s p))"
  by (simp add: gamecardGetHandleAndStorage_def Let_def split_def)

lemma gamecardOpenStorageArea_no_reads [simp]:
  "no_reads s0 s \<Longrightarrow> no_reads s0 (snd (gamecardOpenStorageArea h env s area))"
  by (simp add: gamecardOpenStorageArea_def Let_def split_def)

lemma transport_reads_first:
  assumes "no_reads s s2"
  shows "transport_reads (new_events s (log_event (Ev_fsStorageRead t off n) s2))
           = [Ev_fsStorageRead t off n]"
proof -
  from assms obtain evs where "trace s2 = evs @ trace s" "transport_reads evs = []"
    unfolding no_reads_def by blast
  then have "trace (log_event (Ev_fsStorageRead t off n) s2) = (Ev_fsStorageRead t off n # evs) @ trace s"
    by (simp add: log_event_def)
  from new_events_append[OF this] \<open>transport_reads evs = []\<close> show ?thesis by simp
qed

lemma transport_reads_later:
  assumes "no_reads s s2" "trace_extends (trace (log_event (Ev_fsStorageRead t off n) s2)) (trace s')"
  shows "transport_reads (new_events s s')
           = transport_reads (new_events (log_event (Ev_fsStorageRead t off n) s2) s')
             @ [Ev_fsStorageRead t off n]"
proof -
  let ?s3 = "log_event (Ev_fsStorageRead t off n) s2"
  from assms(1) obtain evs where e: "trace s2 = evs @ trace s" "transport_reads evs = []"
    unfolding no_reads_def by blast
  from assms(2) obtain evs' where e': "trace s' = evs' @ trace ?s3"
    unfolding trace_extends_def by blast
  then have "trace s' = (evs' @ Ev_fsStorageRead t off n # evs) @ trace s"
    using e by (simp add: log_event_def)
  from new_events_append[OF this] new_events_append[OF e'] e(2) show ?thesis by simp
qed

lemmas reader_defs = page_aligned_def block_size_def block_start_offset_def after_first_chunk_def
  first_chunk_size_def storage_area_of_def base_offset_of_def in_one_area_def

lemma span_no_wrap:
  fixes offs rs n :: u64
  assumes "offs < n" "offs + rs > n"
  shows "unat (offs + rs) = unat offs + unat rs"
  using assms by unat_arith

lemma gamecardReadStorageArea_valid:
  "fst (gamecardReadStorageArea h env s out rs off)
   \<Longrightarrow> \<not> gamecardReadStorageArea_invalid h s out rs off"
  by (subst (asm) gamecardReadStorageArea_unfold) (simp split: if_splits)

lemma gamecardReadStorageArea_TotalSize [simp]:
  "g_gameCardTotalSize (snd (snd (gamecardReadStorageArea h env s out rs off)))
     = g_gameCardTotalSize s"
  by (rule card_frame_TotalSize) simp


subsection \<open>Evaluation\<close>

lemma gamecardGetHandleAndStorage_tries_numeral:
  "gamecardGetHandleAndStorage_tries env p (numeral k) rcf s =
     (let s1 = (if rcf then log_event (Ev_svcSleepThread 100000000) s else s);
          got = fsDeviceOperatorGetGameCardHandle env (trace s1);
          s2 = log_event Ev_fsDeviceOperatorGetGameCardHandle s1
      in case got of
           None \<Rightarrow> gamecardGetHandleAndStorage_tries env p (pred_numeral k) True s2
         | Some v \<Rightarrow>
             (let s3 = s2\<lparr>g_gameCardHandle := v\<rparr>;
                  opened = fsOpenGameCardStorage env (trace s3) p;
                  s4 = log_event (Ev_fsOpenGameCardStorage p) s3
              in if \<not> opened
                 then gamecardGetHandleAndStorage_tries env p (pred_numeral k) True (gamecardCloseHandle s4)
                 else (False, s4\<lparr>g_gameCardStorage_active := True\<rparr>)))"
  by (simp only: numeral_eq_Suc gamecardGetHandleAndStorage_tries.simps)

lemma gamecardGetHandleAndStorage_tries_1:
  "gamecardGetHandleAndStorage_tries env p 1 rcf s =
     (let s1 = (if rcf then log_event (Ev_svcSleepThread 100000000) s else s);
          got = fsDeviceOperatorGetGameCardHandle env (trace s1);
          s2 = log_event Ev_fsDeviceOperatorGetGameCardHandle s1
      in case got of
           None \<Rightarrow> (True, s2)
         | Some v \<Rightarrow>
             (let s3 = s2\<lparr>g_gameCardHandle := v\<rparr>;
                  opened = fsOpenGameCardStorage env (trace s3) p;
                  s4 = log_event (Ev_fsOpenGameCardStorage p) s3
              in if \<not> opened
                 then (True, gamecardCloseHandle s4)
                 else (False, s4\<lparr>g_gameCardStorage_active := True\<rparr>)))"
  by (simp only: One_nat_def gamecardGetHandleAndStorage_tries.simps)

lemmas tries_eval = gamecardGetHandleAndStorage_tries_numeral gamecardGetHandleAndStorage_tries_1

lemmas model_defs =
  gamecardLoadInfo_def gamecardLoadInfo_steps_def gamecardLoadInfo_geometry_def
  gamecardLoadInfo_partitions_def gamecardReadHeader_def gamecardGetDecryptedCardInfoArea_def
  gamecardGetStorageAreasSizes_def gamecardGetStorageAreasSizes_area_def
  gamecardOpenStorageArea_def gamecardGetHandleAndStorage_def gamecardCloseStorageArea_def
  gamecardCloseHandle_def gamecardFreeInfo_def gamecardInitializeHashFileSystemContext_def
  hash_target_checked_def
  gamecardGetCapacityFromRomSizeValue_def GameCardHashFileSystemPartitionType_all_def
  memcmp_differs_def bswap32_def ALIGN_UP_def ALIGN_DOWN_def IS_ALIGNED_def
  GAMECARD_PAGE_SIZE_def GAMECARD_READ_BUFFER_SIZE_def GAMECARD_UNUSED_AREA_SIZE_def
  GAMECARD_UNUSED_AREA_BLOCK_SIZE_def GameCardCapacity_1GiB_def GameCardCapacity_2GiB_def
  GameCardCapacity_4GiB_def GameCardCapacity_8GiB_def GameCardCapacity_16GiB_def
  GameCardCapacity_32GiB_def log_event_def Let_def tries_eval
  gamecardReadStorageArea.simps

lemmas example_defs =
  nxdumptool_h_def initial_state_def inserted_state_def card_env_def nogc_env_def
  card_header_def card_entry_def zero_GameCardHeader_def zero_GameCardInfo_def

lemmas eval_simps = model_defs example_defs word_le_nat_alt word_less_nat_alt

section \<open>Properties\<close>

subsection \<open>Capacity lookup\<close>

text \<open>
  Claim C5. The capacity lookup is a total pure function of the ROM size code: each of
  the six codes of \<open>GameCardRomSize\<close> (six different values, as the labels of a C
  \<open>switch\<close> are) yields its capacity of 1, 2, 4, 8, 16 or 32 GiB in bytes, and the
  result is the failure value 0 exactly for the codes outside the table, never a
  default capacity. A load that reads a header whose ROM size code is outside the table
  aborts: it does not end with status \<open>InsertedAndInfoLoaded\<close>, and it leaves a capacity
  of 0 and no Hash FS contexts.
\<close>

theorem gamecardGetCapacityFromRomSizeValue_table:
  assumes "distinct (GameCardRomSize_codes h)"
  shows "gamecardGetCapacityFromRomSizeValue h (GameCardRomSize_1GiB h) = 1073741824
       \<and> gamecardGetCapacityFromRomSizeValue h (GameCardRomSize_2GiB h) = 2147483648
       \<and> gamecardGetCapacityFromRomSizeValue h (GameCardRomSize_4GiB h) = 4294967296
       \<and> gamecardGetCapacityFromRomSizeValue h (GameCardRomSize_8GiB h) = 8589934592
       \<and> gamecardGetCapacityFromRomSizeValue h (GameCardRomSize_16GiB h) = 17179869184
       \<and> gamecardGetCapacityFromRomSizeValue h (GameCardRomSize_32GiB h) = 34359738368
       \<and> (gamecardGetCapacityFromRomSizeValue h c = 0) = (c \<notin> set (GameCardRomSize_codes h))
       \<and> (g_gameCardStatus s \<noteq> GameCardStatus_InsertedAndInfoLoaded
          \<and> rom_size (g_gameCardHeader (snd (gamecardReadHeader h env
                (s\<lparr>g_gameCardStatus := GameCardStatus_InsertedAndInfoNotLoaded\<rparr>))))
              \<notin> set (GameCardRomSize_codes h)
          \<longrightarrow> g_gameCardStatus (gamecardLoadInfo h env s) \<noteq> GameCardStatus_InsertedAndInfoLoaded
              \<and> g_gameCardCapacity (gamecardLoadInfo h env s) = 0
              \<and> g_gameCardHfsCtx (gamecardLoadInfo h env s) = None)"
proof -
  have tab: "gamecardGetCapacityFromRomSizeValue h (GameCardRomSize_1GiB h) = 1073741824
       \<and> gamecardGetCapacityFromRomSizeValue h (GameCardRomSize_2GiB h) = 2147483648
       \<and> gamecardGetCapacityFromRomSizeValue h (GameCardRomSize_4GiB h) = 4294967296
       \<and> gamecardGetCapacityFromRomSizeValue h (GameCardRomSize_8GiB h) = 8589934592
       \<and> gamecardGetCapacityFromRomSizeValue h (GameCardRomSize_16GiB h) = 17179869184
       \<and> gamecardGetCapacityFromRomSizeValue h (GameCardRomSize_32GiB h) = 34359738368
       \<and> (gamecardGetCapacityFromRomSizeValue h c = 0) = (c \<notin> set (GameCardRomSize_codes h))"
    using assms
    by (auto simp: gamecardGetCapacityFromRomSizeValue_def GameCardRomSize_codes_def
        GameCardCapacity_1GiB_def GameCardCapacity_2GiB_def GameCardCapacity_4GiB_def
        GameCardCapacity_8GiB_def GameCardCapacity_16GiB_def GameCardCapacity_32GiB_def)
  have ab: "g_gameCardStatus (gamecardLoadInfo h env s) \<noteq> GameCardStatus_InsertedAndInfoLoaded
              \<and> g_gameCardCapacity (gamecardLoadInfo h env s) = 0
              \<and> g_gameCardHfsCtx (gamecardLoadInfo h env s) = None"
    if nl: "g_gameCardStatus s \<noteq> GameCardStatus_InsertedAndInfoLoaded"
      and u: "rom_size (g_gameCardHeader (snd (gamecardReadHeader h env
                (s\<lparr>g_gameCardStatus := GameCardStatus_InsertedAndInfoNotLoaded\<rparr>))))
              \<notin> set (GameCardRomSize_codes h)"
  proof -
    have a: "g_gameCardStatus (gamecardLoadInfo h env s) \<noteq> GameCardStatus_InsertedAndInfoLoaded"
      by (rule gamecardLoadInfo_unknown_rom_size[OF nl gamecardGetCapacityFromRomSizeValue_zero[OF u]])
    let ?E = "gamecardLoadInfo_steps h env (s\<lparr>g_gameCardStatus := GameCardStatus_InsertedAndInfoNotLoaded\<rparr>)"
    from a nl have "gamecardLoadInfo h env s = gamecardFreeInfo False ?E"
      by (auto simp: gamecardLoadInfo_def Let_def split: if_splits)
    then show ?thesis using a by (simp add: gamecardFreeInfo_released gamecardFreeInfo_Capacity)
  qed
  from tab ab show ?thesis by blast
qed

theorem gamecardGetCapacityFromRomSizeValue_table_witness:
  "distinct (GameCardRomSize_codes nxdumptool_h)
   \<and> gamecardGetCapacityFromRomSizeValue nxdumptool_h 0xE1 = 17179869184
   \<and> gamecardGetCapacityFromRomSizeValue nxdumptool_h 0x00 = 0
   \<and> g_gameCardStatus (gamecardLoadInfo nxdumptool_h bad_rom_env initial_state)
       = GameCardStatus_InsertedAndInfoNotLoaded
   \<and> g_gameCardCapacity (gamecardLoadInfo nxdumptool_h bad_rom_env initial_state) = 0"
proof -
  have d: "distinct (GameCardRomSize_codes nxdumptool_h)"
    by (simp add: GameCardRomSize_codes_def nxdumptool_h_def)
  have nl: "g_gameCardStatus initial_state \<noteq> GameCardStatus_InsertedAndInfoLoaded"
    by (simp add: initial_state_def)
  have u: "rom_size (g_gameCardHeader (snd (gamecardReadHeader nxdumptool_h bad_rom_env
             (initial_state\<lparr>g_gameCardStatus := GameCardStatus_InsertedAndInfoNotLoaded\<rparr>))))
           \<notin> set (GameCardRomSize_codes nxdumptool_h)"
    by (simp add: eval_simps bad_rom_env_def GameCardRomSize_codes_def)
  have st: "g_gameCardStatus (gamecardLoadInfo nxdumptool_h bad_rom_env initial_state)
              = GameCardStatus_InsertedAndInfoNotLoaded"
    by (simp add: eval_simps bad_rom_env_def)
  from gamecardGetCapacityFromRomSizeValue_table[OF d, of 0 initial_state bad_rom_env] d nl u st
  show ?thesis
    by (simp add: GameCardRomSize_codes_def nxdumptool_h_def)
qed

subsection \<open>The public getters\<close>

text \<open>
  Claim C10. Each of the four getters (header, total size, ROM capacity, trimmed size)
  succeeds exactly when the interface is initialized, the status is
  \<open>InsertedAndInfoLoaded\<close> and the output pointer is not NULL. When it fails, what the
  output pointer holds is unchanged; when it succeeds, the output holds the value of the
  loaded state (for the trimmed size, the header size plus the page offset of the
  header's \<open>valid_data_end_address\<close>).
\<close>

theorem getters_frame:
  fixes out_h :: "GameCardHeader option" and out :: "u64 option"
  shows "(fst (gamecardGetHeader s out_h) \<longleftrightarrow> info_loaded s \<and> out_h \<noteq> None)
       \<and> (\<not> fst (gamecardGetHeader s out_h) \<longrightarrow> snd (gamecardGetHeader s out_h) = out_h)
       \<and> (fst (gamecardGetHeader s out_h)
            \<longrightarrow> snd (gamecardGetHeader s out_h) = Some (g_gameCardHeader s))
       \<and> (fst (gamecardGetTotalSize s out) \<longleftrightarrow> info_loaded s \<and> out \<noteq> None)
       \<and> (\<not> fst (gamecardGetTotalSize s out) \<longrightarrow> snd (gamecardGetTotalSize s out) = out)
       \<and> (fst (gamecardGetTotalSize s out)
            \<longrightarrow> snd (gamecardGetTotalSize s out) = Some (g_gameCardTotalSize s))
       \<and> (fst (gamecardGetRomCapacity s out) \<longleftrightarrow> info_loaded s \<and> out \<noteq> None)
       \<and> (\<not> fst (gamecardGetRomCapacity s out) \<longrightarrow> snd (gamecardGetRomCapacity s out) = out)
       \<and> (fst (gamecardGetRomCapacity s out)
            \<longrightarrow> snd (gamecardGetRomCapacity s out) = Some (g_gameCardCapacity s))
       \<and> (fst (gamecardGetTrimmedSize h s out) \<longleftrightarrow> info_loaded s \<and> out \<noteq> None)
       \<and> (\<not> fst (gamecardGetTrimmedSize h s out) \<longrightarrow> snd (gamecardGetTrimmedSize h s out) = out)
       \<and> (fst (gamecardGetTrimmedSize h s out)
            \<longrightarrow> snd (gamecardGetTrimmedSize h s out)
                = Some (sizeof_GameCardHeader h
                        + GAMECARD_PAGE_OFFSET h (valid_data_end_address (g_gameCardHeader s))))"
  by (auto simp: info_loaded_def gamecardGetHeader_def gamecardGetTotalSize_def
      gamecardGetRomCapacity_def gamecardGetTrimmedSize_def Let_def)

theorem getters_frame_witness:
  "fst (gamecardGetTotalSize loaded_state (Some 0))
   \<and> snd (gamecardGetTotalSize loaded_state (Some 0)) = Some 0x78000000
   \<and> \<not> fst (gamecardGetRomCapacity initial_state (Some 7))
   \<and> snd (gamecardGetRomCapacity initial_state (Some 7)) = Some 7
   \<and> \<not> fst (gamecardGetHeader loaded_state None)"
  using getters_frame[of loaded_state None "Some 0" nxdumptool_h]
    getters_frame[of initial_state None "Some 7" nxdumptool_h]
  by (simp add: info_loaded_def loaded_state_def initial_state_def)

subsection \<open>The firmware check\<close>

text \<open>
  Claim C1. Let the load of a card read a valid header and decrypt the CardInfo area, let
  V be the installed LAFW version and F the firmware version field of the decrypted
  area. The load goes past the firmware check exactly when V > F. When V \<le> F, equal
  versions included, it stops and the status it leaves is
  \<open>LotusAsicFirmwareUpdateRequired\<close>; when V > F the final status is never that one.
\<close>

theorem firmware_check_strict:
  assumes "g_gameCardStatus s \<noteq> GameCardStatus_InsertedAndInfoLoaded"
    and hdr: "gamecardReadHeader h env
                (s\<lparr>g_gameCardStatus := GameCardStatus_InsertedAndInfoNotLoaded\<rparr>) = (True, s1)"
    and info: "gamecardGetDecryptedCardInfoArea h env s1 = (True, s2)"
  shows "(past_firmware_check s2 (gamecardLoadInfo h env s)
            \<longleftrightarrow> g_lafwVersion s > fw_version (g_gameCardInfoArea s2))
       \<and> (g_lafwVersion s \<le> fw_version (g_gameCardInfoArea s2)
            \<longrightarrow> g_gameCardStatus (gamecardLoadInfo h env s)
                  = GameCardStatus_LotusAsicFirmwareUpdateRequired)
       \<and> (g_lafwVersion s > fw_version (g_gameCardInfoArea s2)
            \<longrightarrow> g_gameCardStatus (gamecardLoadInfo h env s)
                  \<noteq> GameCardStatus_LotusAsicFirmwareUpdateRequired)"
proof -
  let ?V = "g_lafwVersion s" and ?F = "fw_version (g_gameCardInfoArea s2)"
  from gamecardReadHeader_success[OF hdr]
  have st1: "g_gameCardStatus s1 = GameCardStatus_InsertedAndInfoNotLoaded"
    and lv1: "g_lafwVersion s1 = ?V" by simp_all
  from gamecardGetDecryptedCardInfoArea_success[OF info]
  have s2: "s2 = s1\<lparr>g_gameCardInfoArea := g_gameCardInfoArea s2\<rparr>" .
  have st2: "g_gameCardStatus s2 = GameCardStatus_InsertedAndInfoNotLoaded"
    and lv2: "g_lafwVersion s2 = ?V"
    by (subst s2, simp add: st1 lv1)+
  have steps: "gamecardLoadInfo_steps h env
                 (s\<lparr>g_gameCardStatus := GameCardStatus_InsertedAndInfoNotLoaded\<rparr>)
               = (if ?V \<le> ?F
                  then s2\<lparr>g_gameCardStatus := GameCardStatus_LotusAsicFirmwareUpdateRequired\<rparr>
                  else gamecardLoadInfo_geometry h env s2)"
    by (simp add: gamecardLoadInfo_steps_def hdr info lv2)
  show ?thesis
  proof (cases "?V \<le> ?F")
    case True
    then have load: "gamecardLoadInfo h env s
                 = gamecardFreeInfo False
                     (s2\<lparr>g_gameCardStatus := GameCardStatus_LotusAsicFirmwareUpdateRequired\<rparr>)"
      using assms(1) by (simp add: gamecardLoadInfo_def steps Let_def)
    have "\<not> past_firmware_check s2 (gamecardLoadInfo h env s)"
      unfolding load by (rule gamecardFreeInfo_not_past_check) simp
    moreover have "g_gameCardStatus (gamecardLoadInfo h env s)
                     = GameCardStatus_LotusAsicFirmwareUpdateRequired"
      unfolding load by simp
    ultimately show ?thesis using True by (simp add: not_less)
  next
    case False
    let ?g = "gamecardLoadInfo_geometry h env s2"
    from False have load: "gamecardLoadInfo h env s
                 = (if g_gameCardStatus ?g \<noteq> GameCardStatus_InsertedAndInfoLoaded
                    then gamecardFreeInfo False ?g else ?g)"
      using assms(1) by (simp add: gamecardLoadInfo_def steps Let_def)
    have past: "past_firmware_check s2 (gamecardLoadInfo h env s)"
      unfolding load using gamecardLoadInfo_geometry_past_check[OF st2, of h env] by simp
    have "load_step s2 ?g" by simp
    then have "g_gameCardStatus ?g \<noteq> GameCardStatus_LotusAsicFirmwareUpdateRequired"
      using st2 by (auto simp: load_step_def)
    then have "g_gameCardStatus (gamecardLoadInfo h env s)
                 \<noteq> GameCardStatus_LotusAsicFirmwareUpdateRequired"
      unfolding load by simp
    with past False show ?thesis by (simp add: not_le)
  qed
qed

theorem firmware_check_strict_witness:
  "past_firmware_check
     (snd (gamecardGetDecryptedCardInfoArea nxdumptool_h card_env
        (snd (gamecardReadHeader nxdumptool_h card_env inserted_state))))
     (gamecardLoadInfo nxdumptool_h card_env initial_state)
   \<and> g_gameCardStatus (gamecardLoadInfo nxdumptool_h card_env initial_state)
       \<noteq> GameCardStatus_LotusAsicFirmwareUpdateRequired
   \<and> \<not> past_firmware_check
     (snd (gamecardGetDecryptedCardInfoArea nxdumptool_h fw3_env
        (snd (gamecardReadHeader nxdumptool_h fw3_env inserted_state))))
     (gamecardLoadInfo nxdumptool_h fw3_env initial_state)
   \<and> g_gameCardStatus (gamecardLoadInfo nxdumptool_h fw3_env initial_state)
       = GameCardStatus_LotusAsicFirmwareUpdateRequired"
proof -
  let ?s0 = "initial_state\<lparr>g_gameCardStatus := GameCardStatus_InsertedAndInfoNotLoaded\<rparr>"
  have s0: "?s0 = inserted_state" by (simp add: inserted_state_def)
  have st: "g_gameCardStatus initial_state \<noteq> GameCardStatus_InsertedAndInfoLoaded"
    and lv: "g_lafwVersion initial_state = 3"
    by (simp_all add: initial_state_def)
  let ?s1 = "snd (gamecardReadHeader nxdumptool_h card_env inserted_state)"
  let ?s2 = "snd (gamecardGetDecryptedCardInfoArea nxdumptool_h card_env ?s1)"
  have h1: "gamecardReadHeader nxdumptool_h card_env ?s0 = (True, ?s1)"
    unfolding s0 by (rule prod_eqI) (simp_all add: eval_simps)
  have i1: "gamecardGetDecryptedCardInfoArea nxdumptool_h card_env ?s1 = (True, ?s2)"
    by (rule prod_eqI) (simp_all add: gamecardGetDecryptedCardInfoArea_def card_env_def)
  have f1: "fw_version (g_gameCardInfoArea ?s2) = 1"
    by (simp add: gamecardGetDecryptedCardInfoArea_def card_env_def)
  let ?t1 = "snd (gamecardReadHeader nxdumptool_h fw3_env inserted_state)"
  let ?t2 = "snd (gamecardGetDecryptedCardInfoArea nxdumptool_h fw3_env ?t1)"
  have h2: "gamecardReadHeader nxdumptool_h fw3_env ?s0 = (True, ?t1)"
    unfolding s0 by (rule prod_eqI) (simp_all add: eval_simps fw3_env_def)
  have i2: "gamecardGetDecryptedCardInfoArea nxdumptool_h fw3_env ?t1 = (True, ?t2)"
    by (rule prod_eqI) (simp_all add: gamecardGetDecryptedCardInfoArea_def card_env_def fw3_env_def)
  have f2: "fw_version (g_gameCardInfoArea ?t2) = 3"
    by (simp add: gamecardGetDecryptedCardInfoArea_def card_env_def fw3_env_def)
  from firmware_check_strict[OF st h1 i1] firmware_check_strict[OF st h2 i2]
  show ?thesis by (simp add: lv f1 f2)
qed

subsection \<open>The total size under SX OS\<close>

text \<open>
  Claim C4 says that a loaded card always has a total size equal to the sum of the sizes
  of its two areas, also under SX OS. The load under SX OS replaces the size of the
  secure area by capacity - (normal size + unused size) and keeps the total that was
  computed from the size the transport reported. For the 2 GiB card of the examples the
  load succeeds and ends with a normal area of 0x100000 bytes, a secure area of
  0x76F00000 bytes and a total of 0x78000000 bytes, which is not their sum.
\<close>

theorem sxos_total_size_stale:
  "g_gameCardStatus (gamecardLoadInfo nxdumptool_h sxos_env initial_state)
     = GameCardStatus_InsertedAndInfoLoaded
   \<and> g_gameCardNormalAreaSize (gamecardLoadInfo nxdumptool_h sxos_env initial_state) = 0x100000
   \<and> g_gameCardSecureAreaSize (gamecardLoadInfo nxdumptool_h sxos_env initial_state) = 0x76F00000
   \<and> g_gameCardTotalSize (gamecardLoadInfo nxdumptool_h sxos_env initial_state) = 0x78000000
   \<and> g_gameCardTotalSize (gamecardLoadInfo nxdumptool_h sxos_env initial_state)
       \<noteq> g_gameCardNormalAreaSize (gamecardLoadInfo nxdumptool_h sxos_env initial_state)
         + g_gameCardSecureAreaSize (gamecardLoadInfo nxdumptool_h sxos_env initial_state)"
proof -
  let ?L = "gamecardLoadInfo nxdumptool_h sxos_env initial_state"
  have e: "?L = ?L\<lparr>g_gameCardStatus := GameCardStatus_InsertedAndInfoLoaded,
                    g_gameCardNormalAreaSize := 0x100000, g_gameCardSecureAreaSize := 0x76F00000,
                    g_gameCardTotalSize := 0x78000000\<rparr>"
    by (simp add: eval_simps sxos_env_def)
  have "g_gameCardStatus ?L = GameCardStatus_InsertedAndInfoLoaded" by (subst e) simp
  moreover have "g_gameCardNormalAreaSize ?L = 0x100000" by (subst e) simp
  moreover have "g_gameCardSecureAreaSize ?L = 0x76F00000" by (subst e) simp
  moreover have "g_gameCardTotalSize ?L = 0x78000000" by (subst e) simp
  ultimately show ?thesis by simp
qed

subsection \<open>Hash mismatch\<close>

text \<open>
  Claim C8. A partition node, root or child, that is given a hash and a non-empty target
  window inside its header is only accepted when the SHA-256 of that window of the
  header that was read agrees with the hash: a node whose digest differs is rejected.
  A load that ends with status \<open>InsertedAndInfoLoaded\<close> has all slots of its pointer
  array filled with nodes verified in this way, the root against the hash of the
  gamecard header and each child against its entry of the root. So a mismatch at any
  node leaves the load at a status that is not \<open>InsertedAndInfoLoaded\<close>, and every such
  load ends with no pointer array, a partition count of 0 and the storage closed.
\<close>

theorem hash_mismatch_aborts_load:
  assumes nl: "g_gameCardStatus s \<noteq> GameCardStatus_InsertedAndInfoLoaded"
  shows "(gamecardInitializeHashFileSystemContext h env s0 name offset sz (Some expected) hto hts
            = (Some ctx, s0')
          \<longrightarrow> node_verified h env expected hto hts ctx)
       \<and> (g_gameCardStatus (gamecardLoadInfo h env s) = GameCardStatus_InsertedAndInfoLoaded
          \<longrightarrow> (\<exists>arr. g_gameCardHfsCtx (gamecardLoadInfo h env s) = Some arr
                    \<and> length arr = unat (g_gameCardHfsCount (gamecardLoadInfo h env s))
                    \<and> all_nodes_verified h env (g_gameCardHeader (gamecardLoadInfo h env s)) arr))
       \<and> (g_gameCardStatus (gamecardLoadInfo h env s) \<noteq> GameCardStatus_InsertedAndInfoLoaded
          \<longrightarrow> g_gameCardHfsCtx (gamecardLoadInfo h env s) = None
              \<and> g_gameCardHfsCount (gamecardLoadInfo h env s) = 0
              \<and> \<not> g_gameCardStorage_active (gamecardLoadInfo h env s)
              \<and> g_gameCardHandle (gamecardLoadInfo h env s) = 0)"
proof -
  let ?s0 = "s\<lparr>g_gameCardStatus := GameCardStatus_InsertedAndInfoNotLoaded\<rparr>"
  let ?s1 = "snd (gamecardReadHeader h env ?s0)"
  let ?s2 = "snd (gamecardGetDecryptedCardInfoArea h env ?s1)"
  let ?s3 = "snd (gamecardGetStorageAreasSizes h env ?s2)"
  let ?s4 = "?s3\<lparr>g_gameCardCapacity :=
                   gamecardGetCapacityFromRomSizeValue h (rom_size (g_gameCardHeader ?s3))\<rparr>"
  let ?s5 = "if utilsGetCustomFirmwareType_is_SXOS env
             then ?s4\<lparr>g_gameCardSecureAreaSize :=
                        g_gameCardCapacity ?s4
                          - (g_gameCardNormalAreaSize ?s4
                               + GAMECARD_UNUSED_AREA_SIZE (g_gameCardCapacity ?s4))\<rparr>
             else ?s4"
  let ?E = "gamecardLoadInfo_steps h env ?s0"
  let ?L = "gamecardLoadInfo h env s"
  have nl0: "g_gameCardStatus ?s0 \<noteq> GameCardStatus_InsertedAndInfoLoaded" by simp
  have nl1: "g_gameCardStatus ?s1 \<noteq> GameCardStatus_InsertedAndInfoLoaded"
    by (rule status_step_not_loaded[OF _ nl0]) simp
  have nl2: "g_gameCardStatus ?s2 \<noteq> GameCardStatus_InsertedAndInfoLoaded"
    by (rule status_step_not_loaded[OF _ nl0]) simp
  have nl3: "g_gameCardStatus ?s3 \<noteq> GameCardStatus_InsertedAndInfoLoaded"
    by (rule status_step_not_loaded[OF _ nl0]) simp
  have nl5: "g_gameCardStatus ?s5 \<noteq> GameCardStatus_InsertedAndInfoLoaded"
    using nl3 by simp
  have L: "?L = (if g_gameCardStatus ?E \<noteq> GameCardStatus_InsertedAndInfoLoaded
                 then gamecardFreeInfo False ?E else ?E)"
    using nl by (simp add: gamecardLoadInfo_def Let_def)
  have part: "?E = gamecardLoadInfo_partitions h env ?s5"
    if "g_gameCardStatus ?E = GameCardStatus_InsertedAndInfoLoaded"
    using that nl1 nl2 nl3
    by (auto simp: gamecardLoadInfo_steps_def gamecardLoadInfo_geometry_def Let_def split_def
        split: if_splits)
  have loaded: "\<exists>arr. g_gameCardHfsCtx ?L = Some arr
                    \<and> length arr = unat (g_gameCardHfsCount ?L)
                    \<and> all_nodes_verified h env (g_gameCardHeader ?L) arr"
    if ld: "g_gameCardStatus ?L = GameCardStatus_InsertedAndInfoLoaded"
  proof -
    from ld have e: "g_gameCardStatus ?E = GameCardStatus_InsertedAndInfoLoaded"
      and le: "?L = ?E"
      by (auto simp: L split: if_splits)
    from part[OF e] e have "g_gameCardStatus (gamecardLoadInfo_partitions h env ?s5)
                              = GameCardStatus_InsertedAndInfoLoaded" by simp
    from gamecardLoadInfo_partitions_loaded[OF nl5 this] show ?thesis
      unfolding le part[OF e] .
  qed
  have released: "g_gameCardHfsCtx ?L = None \<and> g_gameCardHfsCount ?L = 0
                  \<and> \<not> g_gameCardStorage_active ?L \<and> g_gameCardHandle ?L = 0"
    if "g_gameCardStatus ?L \<noteq> GameCardStatus_InsertedAndInfoLoaded"
    using that by (auto simp: L gamecardFreeInfo_released split: if_splits)
  show ?thesis
    using gamecardInitializeHashFileSystemContext_verified[of h env s0 name offset sz expected
        hto hts ctx s0'] loaded released
    by blast
qed

theorem hash_mismatch_aborts_load_witness:
  "g_gameCardStatus (gamecardLoadInfo nxdumptool_h bad_child_env initial_state)
     \<noteq> GameCardStatus_InsertedAndInfoLoaded
   \<and> g_gameCardHfsCtx (gamecardLoadInfo nxdumptool_h bad_child_env initial_state) = None
   \<and> g_gameCardHfsCount (gamecardLoadInfo nxdumptool_h bad_child_env initial_state) = 0
   \<and> g_gameCardStatus (gamecardLoadInfo nxdumptool_h card_env initial_state)
       = GameCardStatus_InsertedAndInfoLoaded
   \<and> (\<exists>arr. g_gameCardHfsCtx (gamecardLoadInfo nxdumptool_h card_env initial_state) = Some arr
          \<and> length arr = 2
          \<and> all_nodes_verified nxdumptool_h card_env
                (g_gameCardHeader (gamecardLoadInfo nxdumptool_h card_env initial_state)) arr)"
proof -
  have st: "g_gameCardStatus initial_state \<noteq> GameCardStatus_InsertedAndInfoLoaded"
    by (simp add: initial_state_def)
  have bad: "g_gameCardStatus (gamecardLoadInfo nxdumptool_h bad_child_env initial_state)
               = GameCardStatus_InsertedAndInfoNotLoaded"
    by (simp add: eval_simps bad_child_env_def)
  have good: "g_gameCardStatus (gamecardLoadInfo nxdumptool_h card_env initial_state)
               = GameCardStatus_InsertedAndInfoLoaded"
    by (simp add: eval_simps)
  have cnt: "g_gameCardHfsCount (gamecardLoadInfo nxdumptool_h card_env initial_state) = 2"
    by (simp add: eval_simps)
  from hash_mismatch_aborts_load[OF st, of nxdumptool_h bad_child_env]
    hash_mismatch_aborts_load[OF st, of nxdumptool_h card_env] bad good cnt
  show ?thesis by simp
qed

subsection \<open>The test on the hash target\<close>

text \<open>
  A node that is acceptable without a hash is accepted with any hash, unchecked, when the
  test on its hash target fails: the target is empty, or its end as the code computes it
  exceeds the header size.
\<close>

lemma gamecardInitializeHashFileSystemContext_unchecked:
  assumes "gamecardInitializeHashFileSystemContext h env s name offset sz None hto hts = (Some ctx, s')"
    and "\<not> hash_target_checked hto hts (ctx_header_size ctx)"
  shows "gamecardInitializeHashFileSystemContext h env s name offset sz (Some expected) hto hts
           = (Some ctx, s')"
  using assms unfolding gamecardInitializeHashFileSystemContext_def Let_def split_def
  by (auto split: if_splits option.splits)

text \<open>
  Claim C9 says that the verification is skipped for every hash target whose end,
  \<open>hash_target_offset + hash_target_size\<close>, exceeds the header size. The code computes
  that end in 64 bits. When the sum reaches \<open>2^64\<close>, and so exceeds every header size,
  the test on the hash target still succeeds whenever the wrapped sum is at most the
  header size: the verification is not skipped then, and it hashes bytes that start in
  front of the header buffer. The target at offset \<open>2^64 - 1\<close> of 2 bytes is one, for a
  header of 0x200 bytes.
\<close>

theorem hash_target_check_wraps:
  assumes "2 ^ 64 \<le> unat hash_target_offset_arg + unat hash_target_size_arg"
  shows "hash_target_checked hash_target_offset_arg hash_target_size_arg header_size
           \<longleftrightarrow> unat hash_target_offset_arg + unat hash_target_size_arg \<le> 2 ^ 64 + unat header_size"
proof -
  have "unat hash_target_offset_arg < 2 ^ 64" using unsigned_less[of hash_target_offset_arg] by simp
  with assms have nz: "hash_target_size_arg \<noteq> 0" by (auto simp: unat_eq_0[symmetric] simp del: unat_eq_0)
  have "unat (hash_target_offset_arg + ucast hash_target_size_arg)
          = unat hash_target_offset_arg + unat hash_target_size_arg - 2 ^ 64"
    using assms by (simp add: unat_plus_if' unat_ucast_32_64)
  with assms nz show ?thesis
    unfolding hash_target_checked_def word_le_nat_alt by auto
qed

theorem hash_target_check_wraps_witness:
  "hash_target_checked 0xFFFFFFFFFFFFFFFF 2 0x200
   \<and> unat (0x200 :: u64) < unat (0xFFFFFFFFFFFFFFFF :: u64) + unat (2 :: u32)"
  using hash_target_check_wraps[of "0xFFFFFFFFFFFFFFFF" 2 "0x200"] by simp

subsection \<open>The bounds check of the reader\<close>

text \<open>
  A read whose parameters are refused by the check at the head of
  \<open>gamecardReadStorageArea\<close> fails and leaves the state as it is.
\<close>

lemma gamecardReadStorageArea_invalid_fails:
  "gamecardReadStorageArea_invalid h s out read_size offset
   \<Longrightarrow> gamecardReadStorageArea h env s out read_size offset = (False, [], s)"
  by (subst gamecardReadStorageArea_unfold) simp

text \<open>
  Claim C6 says that a read with \<open>offset + read_size\<close> beyond the total size fails. The
  check compares the sum computed in 64 bits, which wraps. On the card of the examples,
  of 0x78000000 bytes, the read of 0x200 bytes at offset \<open>2^64 - 0x200\<close> has a sum of 0
  and passes the check. The offset lies beyond the normal area, so the secure area is
  opened; offset and size are multiples of the page size, so one transport read of
  0x200 bytes at offset \<open>2^64 - 0x200 - 0x100000\<close> of the secure area goes straight to
  the output buffer, and the call returns success when that read does.
\<close>

theorem read_guard_wraps:
  "unat (g_gameCardTotalSize geometry_state)
     < unat (0xFFFFFFFFFFFFFE00 :: u64) + unat (0x200 :: u64)
   \<and> fst (gamecardReadStorageArea nxdumptool_h card_env geometry_state True 0x200
            0xFFFFFFFFFFFFFE00)
   \<and> fst (snd (gamecardReadStorageArea nxdumptool_h card_env geometry_state True 0x200
                  0xFFFFFFFFFFFFFE00))
       = storage_bytes card_env GameCardStorageArea_Secure 0xFFFFFFFFFFEFFE00 0x200
   \<and> new_events geometry_state
         (snd (snd (gamecardReadStorageArea nxdumptool_h card_env geometry_state True 0x200
                      0xFFFFFFFFFFFFFE00)))
       = [Ev_fsStorageRead To_out 0xFFFFFFFFFFEFFE00 0x200, Ev_fsOpenGameCardStorage 1,
          Ev_fsDeviceOperatorGetGameCardHandle]"
proof -
  have e: "gamecardReadStorageArea nxdumptool_h card_env geometry_state True 0x200
             0xFFFFFFFFFFFFFE00
        = gamecardReadStorageArea_area nxdumptool_h card_env geometry_state True 0x200
            0xFFFFFFFFFFFFFE00 GameCardStorageArea_Secure []"
    by (subst gamecardReadStorageArea_unfold)
      (simp add: eval_simps geometry_state_def gamecardReadStorageArea_invalid_def)
  show ?thesis
    unfolding e
    by (simp add: eval_simps geometry_state_def gamecardReadStorageArea_area_def new_events_def)
qed

subsection \<open>Acquiring the handle\<close>

text \<open>
  Claim C7. \<open>gamecardGetHandleAndStorage\<close> asks for a gamecard handle at most 10 times,
  and a sleep of 100 ms (100000000 ns) separates any two requests. When it fails on
  valid parameters, all 10 requests were made; when it fails for the normal area
  (partition 0) while the status is \<open>InsertedAndInfoNotLoaded\<close>, the status becomes
  \<open>NoGameCardPatchEnabled\<close>. That is the status \<open>gamecardLoadInfo\<close> ends with when its
  first step, opening the normal area, fails: the load does not try again.
\<close>

theorem handle_acquisition_backoff:
  assumes "gamecardGetHandleAndStorage h env s p = (ok, s')"
  shows "handle_requests (new_events s s') \<le> 10
       \<and> backoff_kept False (rev (new_events s s'))
       \<and> (\<not> ok \<and> \<not> (GameCardStatus_value h (g_gameCardStatus s)
                          < GameCardStatus_value h GameCardStatus_InsertedAndInfoNotLoaded
                        \<or> p > 1)
            \<longrightarrow> handle_requests (new_events s s') = 10)
       \<and> (\<not> ok \<and> g_gameCardStatus s = GameCardStatus_InsertedAndInfoNotLoaded \<and> p = 0
            \<longrightarrow> g_gameCardStatus s' = GameCardStatus_NoGameCardPatchEnabled)
       \<and> (g_gameCardStatus s0 \<noteq> GameCardStatus_InsertedAndInfoLoaded
            \<and> \<not> fst (gamecardOpenStorageArea h env
                        (s0\<lparr>g_gameCardStatus := GameCardStatus_InsertedAndInfoNotLoaded\<rparr>)
                        GameCardStorageArea_Normal)
            \<longrightarrow> g_gameCardStatus (gamecardLoadInfo h env s0)
                  = GameCardStatus_NoGameCardPatchEnabled)"
proof -
  let ?R = "gamecardGetHandleAndStorage_tries env p 10 False s"
  from gamecardGetHandleAndStorage_tries_trace[of env p 10 False s] obtain evs where
    tr: "trace (snd ?R) = evs @ trace s" and le: "handle_requests evs \<le> 10"
    and ex: "fst ?R \<longrightarrow> handle_requests evs = 10"
    and bk: "\<forall>es. backoff_kept True es \<longrightarrow> backoff_kept False (rev evs @ es)"
    by auto
  from bk have bk': "backoff_kept False (rev evs)" by (metis append_Nil2 backoff_kept.simps(1))
  show ?thesis
  proof (cases "GameCardStatus_value h (g_gameCardStatus s)
                  < GameCardStatus_value h GameCardStatus_InsertedAndInfoNotLoaded \<or> p > 1")
    case True
    with assms have "s' = s" by (auto simp: gamecardGetHandleAndStorage_def)
    then have ne: "new_events s s' = []" by (simp add: new_events_def)
    have part5: "g_gameCardStatus s0 \<noteq> GameCardStatus_InsertedAndInfoLoaded
            \<and> \<not> fst (gamecardOpenStorageArea h env
                        (s0\<lparr>g_gameCardStatus := GameCardStatus_InsertedAndInfoNotLoaded\<rparr>)
                        GameCardStorageArea_Normal)
            \<longrightarrow> g_gameCardStatus (gamecardLoadInfo h env s0)
                  = GameCardStatus_NoGameCardPatchEnabled"
      by (auto simp: gamecardLoadInfo_def gamecardLoadInfo_steps_def gamecardReadHeader_def
          Let_def split_def gamecardOpenStorageArea_status)
    from True ne part5 show ?thesis by auto
  next
    case False
    have part5: "g_gameCardStatus s0 \<noteq> GameCardStatus_InsertedAndInfoLoaded
            \<and> \<not> fst (gamecardOpenStorageArea h env
                        (s0\<lparr>g_gameCardStatus := GameCardStatus_InsertedAndInfoNotLoaded\<rparr>)
                        GameCardStorageArea_Normal)
            \<longrightarrow> g_gameCardStatus (gamecardLoadInfo h env s0)
                  = GameCardStatus_NoGameCardPatchEnabled"
      by (auto simp: gamecardLoadInfo_def gamecardLoadInfo_steps_def gamecardReadHeader_def
          Let_def split_def gamecardOpenStorageArea_status)
    from False assms have ok: "ok = (\<not> fst ?R)"
      and s': "trace s' = trace (snd ?R)"
      by (auto simp: gamecardGetHandleAndStorage_def Let_def split_def split: if_splits)
    from s' tr have ne: "new_events s s' = evs" by (simp add: new_events_append)
    have st: "\<not> ok \<and> g_gameCardStatus s = GameCardStatus_InsertedAndInfoNotLoaded \<and> p = 0
            \<longrightarrow> g_gameCardStatus s' = GameCardStatus_NoGameCardPatchEnabled"
      using gamecardGetHandleAndStorage_status[of h env s p] assms by simp
    from ne le bk' ex ok st part5 show ?thesis by simp
  qed
qed

theorem handle_acquisition_backoff_witness:
  "\<not> fst (gamecardGetHandleAndStorage nxdumptool_h nogc_env inserted_state 0)
   \<and> handle_requests
         (new_events inserted_state
            (snd (gamecardGetHandleAndStorage nxdumptool_h nogc_env inserted_state 0))) = 10
   \<and> backoff_kept False
         (rev (new_events inserted_state
            (snd (gamecardGetHandleAndStorage nxdumptool_h nogc_env inserted_state 0))))
   \<and> g_gameCardStatus (snd (gamecardGetHandleAndStorage nxdumptool_h nogc_env inserted_state 0))
       = GameCardStatus_NoGameCardPatchEnabled
   \<and> g_gameCardStatus (gamecardLoadInfo nxdumptool_h nogc_env initial_state)
       = GameCardStatus_NoGameCardPatchEnabled"
proof -
  have run: "\<not> fst (gamecardGetHandleAndStorage nxdumptool_h nogc_env inserted_state 0)"
    by (simp add: model_defs example_defs)
  have st: "g_gameCardStatus inserted_state = GameCardStatus_InsertedAndInfoNotLoaded"
    "g_gameCardStatus initial_state \<noteq> GameCardStatus_InsertedAndInfoLoaded"
    "\<not> (GameCardStatus_value nxdumptool_h (g_gameCardStatus inserted_state)
          < GameCardStatus_value nxdumptool_h GameCardStatus_InsertedAndInfoNotLoaded
        \<or> (1::u32) < 0)"
    by (simp_all add: example_defs)
  have op: "\<not> fst (gamecardOpenStorageArea nxdumptool_h nogc_env
                    (initial_state\<lparr>g_gameCardStatus := GameCardStatus_InsertedAndInfoNotLoaded\<rparr>)
                    GameCardStorageArea_Normal)"
    by (simp add: model_defs example_defs)
  from handle_acquisition_backoff[OF surjective_pairing, where h = nxdumptool_h
      and env = nogc_env and s = inserted_state and p = 0 and ?s0.0 = initial_state] run st op
  show ?thesis by simp
qed

subsection \<open>Reads inside one area\<close>



subsection \<open>Reads across both areas\<close>



end
